theory Spec2Isabelle
  imports Complex_Main
begin

section \<open>The 24-hour clock: segment store, pointer gestures and persistence\<close>

text \<open>
  A shallow embedding of \<^verbatim>\<open>src/src/Clock.jsx\<close>: the React component that lets a
  user paint the 24 hour segments of a clock face with one of four colours and keeps the
  selection in \<^verbatim>\<open>localStorage\<close>.

  The component's state (\<^verbatim>\<open>useState\<close>, \<^verbatim>\<open>useRef\<close>) and the one local-storage slot it
  uses are a record that every handler takes and returns. The platform functions the
  component calls are modelled where a claim depends on them: \<^verbatim>\<open>JSON.parse\<close> and
  \<^verbatim>\<open>JSON.stringify\<close> below, React's rule that an effect runs when its dependency is a
  different object, and string truthiness.
\<close>

subsection \<open>JSON.parse\<close>

text \<open>
  \<^verbatim>\<open>JSON.parse(text)\<close> as ECMA-404 defines JSON text: a tokenizer and a pushdown
  automaton over the tokens. A text that is not JSON throws a \<^verbatim>\<open>SyntaxError\<close>, which
  is the value \<open>Inl SyntaxError\<close> here. The result is the syntax tree of the text: a string
  keeps the characters between its quotes as they are written (escape sequences are
  checked, not decoded), a number keeps its lexeme, and an object keeps its members in the
  order of the text. An object with no member is \<open>JObject []\<close>.
\<close>

datatype js_error = SyntaxError | TypeError

datatype json =
    JNull
  | JBool bool
  | JNumber string
  | JString string
  | JArray "json list"
  | JObject "(string \<times> json) list"

datatype token =
    TLBrace | TRBrace | TLBracket | TRBracket | TColon | TComma
  | TString string | TNumber string | TTrue | TFalse | TNull

definition is_ws :: "char \<Rightarrow> bool" where
  "is_ws c = (c = CHR 0x20 \<or> c = CHR 0x09 \<or> c = CHR 0x0A \<or> c = CHR 0x0D)"

definition is_digit :: "char \<Rightarrow> bool" where
  "is_digit c = (c \<in> set ''0123456789'')"

definition is_hex :: "char \<Rightarrow> bool" where
  "is_hex c = (c \<in> set ''0123456789abcdefABCDEF'')"

definition is_escape :: "char \<Rightarrow> bool" where
  "is_escape e = (e \<in> set [CHR 0x22, CHR 0x5C, CHR ''/'', CHR ''b'', CHR ''f'', CHR ''n'', CHR ''r'', CHR ''t''])"

function lex_string :: "string \<Rightarrow> (string \<times> string) option" where
  "lex_string [] = None"
| "lex_string (c # cs) =
     (if c = CHR 0x22 then Some ([], cs)
      else if c = CHR 0x5C then
        (case cs of
           [] \<Rightarrow> None
         | e # cs' \<Rightarrow>
             if is_escape e
             then map_option (\<lambda>(s, r). (c # e # s, r)) (lex_string cs')
             else if e = CHR ''u'' \<and> 4 \<le> length cs' \<and> list_all is_hex (take 4 cs')
             then map_option (\<lambda>(s, r). (c # e # take 4 cs' @ s, r)) (lex_string (drop 4 cs'))
             else None)
      else if (of_char c :: nat) < 32 then None
      else map_option (\<lambda>(s, r). (c # s, r)) (lex_string cs))"
  by pat_completeness auto
termination
  by (relation "measure length") auto

lemma lex_string_length: "lex_string cs = Some (s, r) \<Longrightarrow> length r < length cs"
proof (induction cs arbitrary: s r rule: lex_string.induct)
  case 1
  then show ?case by simp
next
  case (2 c cs)
  then show ?case
    by (fastforce split: if_splits list.splits)
qed

definition lex_digits :: "string \<Rightarrow> (string \<times> string) option" where
  "lex_digits cs =
     (if takeWhile is_digit cs = [] then None
      else Some (takeWhile is_digit cs, dropWhile is_digit cs))"

definition lex_int :: "string \<Rightarrow> (string \<times> string) option" where
  "lex_int cs =
     (case cs of
        [] \<Rightarrow> None
      | d # r \<Rightarrow> if d = CHR ''0'' then Some ([d], r) else lex_digits cs)"

definition lex_frac :: "string \<Rightarrow> (string \<times> string) option" where
  "lex_frac cs =
     (case cs of
        [] \<Rightarrow> Some ([], cs)
      | d # r \<Rightarrow>
          if d = CHR ''.'' then map_option (\<lambda>(ds, r'). (d # ds, r')) (lex_digits r)
          else Some ([], cs))"

definition lex_sign :: "string \<Rightarrow> string \<times> string" where
  "lex_sign cs =
     (case cs of
        [] \<Rightarrow> ([], cs)
      | g # r \<Rightarrow> if g = CHR ''+'' \<or> g = CHR ''-'' then ([g], r) else ([], cs))"

definition lex_exp :: "string \<Rightarrow> (string \<times> string) option" where
  "lex_exp cs =
     (case cs of
        [] \<Rightarrow> Some ([], cs)
      | e # r \<Rightarrow>
          if e = CHR ''e'' \<or> e = CHR ''E''
          then (case lex_sign r of (g, r') \<Rightarrow>
                  map_option (\<lambda>(ds, r''). (e # g @ ds, r'')) (lex_digits r'))
          else Some ([], cs))"

definition lex_number :: "string \<Rightarrow> (string \<times> string) option" where
  "lex_number cs =
     (case lex_int (if take 1 cs = ''-'' then drop 1 cs else cs) of
        None \<Rightarrow> None
      | Some (i, r1) \<Rightarrow>
          (case lex_frac r1 of
             None \<Rightarrow> None
           | Some (f, r2) \<Rightarrow>
               (case lex_exp r2 of
                  None \<Rightarrow> None
                | Some (x, r3) \<Rightarrow> Some ((if take 1 cs = ''-'' then ''-'' else []) @ i @ f @ x, r3))))"

lemma lex_digits_length: "lex_digits cs = Some (s, r) \<Longrightarrow> length r < length cs"
proof -
  assume a: "lex_digits cs = Some (s, r)"
  then have ne: "takeWhile is_digit cs \<noteq> []" and r: "r = dropWhile is_digit cs"
    by (auto simp: lex_digits_def split: if_splits)
  have "length (takeWhile is_digit cs) + length (dropWhile is_digit cs) = length cs"
    by (metis length_append takeWhile_dropWhile_id)
  with ne r show ?thesis by (cases "takeWhile is_digit cs") auto
qed

lemma lex_int_length: "lex_int cs = Some (s, r) \<Longrightarrow> length r < length cs"
  unfolding lex_int_def
  by (auto split: list.splits if_splits dest: lex_digits_length)

lemma lex_frac_length: "lex_frac cs = Some (s, r) \<Longrightarrow> length r \<le> length cs"
  unfolding lex_frac_def
  by (auto split: list.splits if_splits dest!: lex_digits_length)

lemma lex_sign_length: "lex_sign cs = (s, r) \<Longrightarrow> length r \<le> length cs"
  unfolding lex_sign_def
  by (auto split: list.splits if_splits)

lemma lex_exp_length: "lex_exp cs = Some (s, r) \<Longrightarrow> length r \<le> length cs"
  unfolding lex_exp_def
  by (auto split: list.splits if_splits prod.splits dest!: lex_digits_length lex_sign_length)

lemma lex_number_length: "lex_number cs = Some (s, r) \<Longrightarrow> length r < length cs"
proof -
  assume a: "lex_number cs = Some (s, r)"
  let ?cs = "if take 1 cs = ''-'' then drop 1 cs else cs"
  from a obtain i r1 where i: "lex_int ?cs = Some (i, r1)"
    by (auto simp: lex_number_def split: option.splits)
  from a i obtain f r2 where f: "lex_frac r1 = Some (f, r2)"
    by (auto simp: lex_number_def split: option.splits)
  from a i f obtain x where x: "lex_exp r2 = Some (x, r)"
    by (auto simp: lex_number_def split: option.splits)
  have "length r \<le> length r2" using x by (rule lex_exp_length)
  also have "\<dots> \<le> length r1" using f by (rule lex_frac_length)
  also have "\<dots> < length ?cs" using i by (rule lex_int_length)
  also have "\<dots> \<le> length cs" by simp
  finally show ?thesis .
qed

function tokenize :: "string \<Rightarrow> token list option" where
  "tokenize [] = Some []"
| "tokenize (c # cs) =
     (if is_ws c then tokenize cs
      else if c = CHR ''{'' then map_option ((#) TLBrace) (tokenize cs)
      else if c = CHR ''}'' then map_option ((#) TRBrace) (tokenize cs)
      else if c = CHR ''['' then map_option ((#) TLBracket) (tokenize cs)
      else if c = CHR '']'' then map_option ((#) TRBracket) (tokenize cs)
      else if c = CHR '':'' then map_option ((#) TColon) (tokenize cs)
      else if c = CHR '','' then map_option ((#) TComma) (tokenize cs)
      else if c = CHR 0x22 then
        (case lex_string cs of
           None \<Rightarrow> None
         | Some (s, r) \<Rightarrow> map_option ((#) (TString s)) (tokenize r))
      else if c = CHR ''-'' \<or> is_digit c then
        (case lex_number (c # cs) of
           None \<Rightarrow> None
         | Some (n, r) \<Rightarrow> map_option ((#) (TNumber n)) (tokenize r))
      else if take 4 (c # cs) = ''true'' then map_option ((#) TTrue) (tokenize (drop 3 cs))
      else if take 5 (c # cs) = ''false'' then map_option ((#) TFalse) (tokenize (drop 4 cs))
      else if take 4 (c # cs) = ''null'' then map_option ((#) TNull) (tokenize (drop 3 cs))
      else None)"
  by pat_completeness auto
termination
proof (relation "measure length")
  fix c cs x2 x y
  assume "lex_string cs = Some x2" "(x, y) = x2"
  then show "(y, c # cs) \<in> measure length"
    using lex_string_length [of cs x y] by simp
next
  fix c cs x2 x y
  assume "lex_number (c # cs) = Some x2" "(x, y) = x2"
  then show "(y, c # cs) \<in> measure length"
    using lex_number_length [of "c # cs" x y] by simp
qed simp_all

datatype frame =
    InArray "json list"
  | InObject "(string \<times> json) list" "string option"

datatype pstate =
    PValue "frame list"
  | PValueOrClose "frame list"
  | PKeyOrClose "frame list"
  | PKey "frame list"
  | PColon "frame list"
  | PAfter "frame list"
  | PDone json

fun deliver :: "json \<Rightarrow> frame list \<Rightarrow> pstate option" where
  "deliver v [] = Some (PDone v)"
| "deliver v (InArray es # st) = Some (PAfter (InArray (v # es) # st))"
| "deliver v (InObject ms (Some k) # st) = Some (PAfter (InObject ((k, v) # ms) None # st))"
| "deliver v (InObject ms None # st) = None"

fun open_value :: "token \<Rightarrow> frame list \<Rightarrow> pstate option" where
  "open_value TNull st = deliver JNull st"
| "open_value TTrue st = deliver (JBool True) st"
| "open_value TFalse st = deliver (JBool False) st"
| "open_value (TNumber n) st = deliver (JNumber n) st"
| "open_value (TString s) st = deliver (JString s) st"
| "open_value TLBracket st = Some (PValueOrClose (InArray [] # st))"
| "open_value TLBrace st = Some (PKeyOrClose (InObject [] None # st))"
| "open_value _ st = None"

fun close_array :: "frame list \<Rightarrow> pstate option" where
  "close_array (InArray es # st) = deliver (JArray (rev es)) st"
| "close_array _ = None"

fun close_object :: "frame list \<Rightarrow> pstate option" where
  "close_object (InObject ms None # st) = deliver (JObject (rev ms)) st"
| "close_object _ = None"

fun read_key :: "string \<Rightarrow> frame list \<Rightarrow> pstate option" where
  "read_key k (InObject ms None # st) = Some (PColon (InObject ms (Some k) # st))"
| "read_key k _ = None"

fun after_comma :: "frame list \<Rightarrow> pstate option" where
  "after_comma (InArray es # st) = Some (PValue (InArray es # st))"
| "after_comma (InObject ms None # st) = Some (PKey (InObject ms None # st))"
| "after_comma _ = None"

fun pstep :: "pstate \<Rightarrow> token \<Rightarrow> pstate option" where
  "pstep (PValue st) t = open_value t st"
| "pstep (PValueOrClose st) t = (if t = TRBracket then close_array st else open_value t st)"
| "pstep (PKeyOrClose st) t =
     (case t of TRBrace \<Rightarrow> close_object st | TString k \<Rightarrow> read_key k st | _ \<Rightarrow> None)"
| "pstep (PKey st) t = (case t of TString k \<Rightarrow> read_key k st | _ \<Rightarrow> None)"
| "pstep (PColon st) t = (if t = TColon then Some (PValue st) else None)"
| "pstep (PAfter st) t =
     (case t of
        TComma \<Rightarrow> after_comma st
      | TRBracket \<Rightarrow> close_array st
      | TRBrace \<Rightarrow> close_object st
      | _ \<Rightarrow> None)"
| "pstep (PDone v) t = None"

fun parse_tokens :: "pstate \<Rightarrow> token list \<Rightarrow> json option" where
  "parse_tokens p [] = (case p of PDone v \<Rightarrow> Some v | _ \<Rightarrow> None)"
| "parse_tokens p (t # ts) =
     (case pstep p t of None \<Rightarrow> None | Some p' \<Rightarrow> parse_tokens p' ts)"

definition JSON_parse :: "string \<Rightarrow> js_error + json" where
  "JSON_parse text =
     (case tokenize text of
        None \<Rightarrow> Inl SyntaxError
      | Some ts \<Rightarrow>
          (case parse_tokens (PValue []) ts of
             None \<Rightarrow> Inl SyntaxError
           | Some v \<Rightarrow> Inr v))"

subsection \<open>The startup load\<close>

text \<open>
  \<^verbatim>\<open>
  const [segmentColors, setSegmentColors] = useState(() => {
      const saved = localStorage.getItem(LOCAL_STORAGE_KEY);
      return saved ? JSON.parse(saved) : {};
  });
  \<close>
  \<^verbatim>\<open>getItem\<close> gives \<^verbatim>\<open>null\<close> for an absent slot (\<open>None\<close>) and the stored string
  otherwise. \<^verbatim>\<open>null\<close> and the empty string are falsy, every other string is truthy.
  There is no \<^verbatim>\<open>try\<close> around \<^verbatim>\<open>JSON.parse\<close>: what it throws leaves the initializer.
\<close>

definition initial_segmentColors :: "string option \<Rightarrow> js_error + json" where
  "initial_segmentColors saved =
     (case saved of
        None \<Rightarrow> Inr (JObject [])
      | Some text \<Rightarrow> if text \<noteq> [] then JSON_parse text else Inr (JObject []))"

subsection \<open>JSON.stringify of the segment map\<close>

text \<open>
  The segment map is a JavaScript object whose keys are segment indices and whose values
  are colour names: a finite map from \<open>nat\<close> to \<open>string\<close>. \<^verbatim>\<open>JSON.stringify\<close> lists
  integer keys in ascending order, writes each key and each value as a quoted JSON
  string, and writes the object with no key as \<^verbatim>\<open>{}\<close>.
\<close>

type_synonym segment_map = "nat \<rightharpoonup> string"

fun string_of_nat :: "nat \<Rightarrow> string" where
  "string_of_nat n =
     (if n < 10 then [''0123456789'' ! n]
      else string_of_nat (n div 10) @ [''0123456789'' ! (n mod 10)])"

definition hex_digit :: "nat \<Rightarrow> char" where
  "hex_digit n = ''0123456789abcdef'' ! (n mod 16)"

definition quote_char :: "char \<Rightarrow> string" where
  "quote_char c =
     (if c = CHR 0x22 then [CHR 0x5C, CHR 0x22]
      else if c = CHR 0x5C then [CHR 0x5C, CHR 0x5C]
      else if c = CHR 0x08 then [CHR 0x5C, CHR ''b'']
      else if c = CHR 0x09 then [CHR 0x5C, CHR ''t'']
      else if c = CHR 0x0A then [CHR 0x5C, CHR ''n'']
      else if c = CHR 0x0C then [CHR 0x5C, CHR ''f'']
      else if c = CHR 0x0D then [CHR 0x5C, CHR ''r'']
      else if (of_char c :: nat) < 32
      then [CHR 0x5C, CHR ''u'', CHR ''0'', CHR ''0'',
            hex_digit (of_char c div 16), hex_digit (of_char c)]
      else [c])"

definition quote_string :: "string \<Rightarrow> string" where
  "quote_string s = [CHR 0x22] @ concat (map quote_char s) @ [CHR 0x22]"

fun join_commas :: "string list \<Rightarrow> string" where
  "join_commas [] = []"
| "join_commas [x] = x"
| "join_commas (x # y # ys) = x @ '','' @ join_commas (y # ys)"

definition JSON_stringify :: "segment_map \<Rightarrow> string" where
  "JSON_stringify m =
     ''{'' @
     join_commas
       (map (\<lambda>k. quote_string (string_of_nat k) @ '':'' @ quote_string (the (m k)))
          (sorted_list_of_set (dom m))) @
     ''}''"

subsection \<open>The component's state\<close>

text \<open>
  \<^item> \<open>segmentColors\<close>, \<open>activeColor\<close>, \<open>dragging\<close>: the three \<^verbatim>\<open>useState\<close> values;
  \<^item> \<open>segmentColors_id\<close>: the identity of the object that \<open>segmentColors\<close> holds. An
    updater that returns \<^verbatim>\<open>prev\<close> keeps the object; an object literal is a new object,
    which gets the next identity. React compares the dependency of an effect with
    \<^verbatim>\<open>Object.is\<close>, that is by identity;
  \<^item> \<open>svgRef\<close>, \<open>dragStartRef\<close>, \<open>draggedRef\<close>: the \<^verbatim>\<open>.current\<close> of the three refs;
    \<open>svgRef\<close> holds the bounding rectangle of the mounted element, \<open>None\<close> is \<^verbatim>\<open>null\<close>;
  \<^item> \<open>localStorage\<close>: the slot stored under \<^verbatim>\<open>LOCAL_STORAGE_KEY\<close>, \<open>None\<close> when absent;
  \<^item> \<open>setItem_calls\<close>: how many times \<^verbatim>\<open>localStorage.setItem\<close> has been called.
\<close>

record rect =
  left :: real
  top :: real

record mouse_event =
  clientX :: real
  clientY :: real

record clock =
  segmentColors :: segment_map
  segmentColors_id :: nat
  activeColor :: string
  dragging :: bool
  svgRef :: "rect option"
  dragStartRef :: "(real \<times> real) option"
  draggedRef :: bool
  localStorage :: "string option"
  setItem_calls :: nat

text \<open>
  The handlers read the pointer through two computations, which they take as parameters:
  \<^verbatim>\<open>Math.hypot\<close>, and the component's \<^verbatim>\<open>getSegmentIndex(clientX, clientY, rect)\<close>,
  which returns a segment index or \<^verbatim>\<open>null\<close>. What the handlers do holds for every
  resolver; the resolver of the component is \<open>getSegmentIndex_at\<close> further down. Pointer
  coordinates are real numbers; the handlers only store them, subtract them and pass them
  on.
\<close>

record geometry =
  Math_hypot :: "real \<Rightarrow> real \<Rightarrow> real"
  getSegmentIndex :: "real \<Rightarrow> real \<Rightarrow> rect \<Rightarrow> nat option"

text \<open>
  What an updater passed to \<^verbatim>\<open>setSegmentColors\<close> returns: \<^verbatim>\<open>prev\<close> itself, or a new
  object.
\<close>

datatype 'a update = Keep | Replace 'a

definition setSegmentColors :: "(segment_map \<Rightarrow> segment_map update) \<Rightarrow> clock \<Rightarrow> clock" where
  "setSegmentColors f s =
     (case f (segmentColors s) of
        Keep \<Rightarrow> s
      | Replace m \<Rightarrow> s\<lparr>segmentColors := m, segmentColors_id := Suc (segmentColors_id s)\<rparr>)"

subsection \<open>The handlers\<close>

text \<open>
  \<^verbatim>\<open>
  const handleMouseDown = (e) => {
      if (!svgRef.current) return;
      dragStartRef.current = {x: e.clientX, y: e.clientY};
      draggedRef.current = false;
      setDragging(true);
      const rect = svgRef.current.getBoundingClientRect();
      const seg = getSegmentIndex(e.clientX, e.clientY, rect);
      if (seg !== null) {
          setSegmentColors(prev => ({...prev, [seg]: activeColor}));
      }
  };
  \<close>
\<close>

definition handleMouseDown :: "geometry \<Rightarrow> mouse_event \<Rightarrow> clock \<Rightarrow> clock" where
  "handleMouseDown g e s =
     (case svgRef s of
        None \<Rightarrow> s
      | Some rect \<Rightarrow>
          (let s1 = s\<lparr>dragStartRef := Some (clientX e, clientY e),
                      draggedRef := False,
                      dragging := True\<rparr>
           in case getSegmentIndex g (clientX e) (clientY e) rect of
                None \<Rightarrow> s1
              | Some seg \<Rightarrow>
                  setSegmentColors (\<lambda>prev. Replace (prev(seg \<mapsto> activeColor s))) s1))"

text \<open>
  \<^verbatim>\<open>
  const handleMouseMove = (e) => {
      if (!dragging || !svgRef.current) return;
      const {x, y} = dragStartRef.current;
      if (!draggedRef.current && Math.hypot(e.clientX - x, e.clientY - y) > 5) {
          draggedRef.current = true;
      }
      const rect = svgRef.current.getBoundingClientRect();
      const seg = getSegmentIndex(e.clientX, e.clientY, rect);
      if (seg !== null) {
          setSegmentColors(prev => {
              if (prev[seg] === activeColor) return prev;
              return {...prev, [seg]: activeColor};
          });
      }
  };
  \<close>
  Destructuring \<^verbatim>\<open>dragStartRef.current\<close> while it is \<^verbatim>\<open>null\<close> throws a \<^verbatim>\<open>TypeError\<close>.
\<close>

definition paint :: "nat \<Rightarrow> string \<Rightarrow> segment_map \<Rightarrow> segment_map update" where
  "paint seg color prev = (if prev seg = Some color then Keep else Replace (prev(seg \<mapsto> color)))"

definition handleMouseMove :: "geometry \<Rightarrow> mouse_event \<Rightarrow> clock \<Rightarrow> js_error + clock" where
  "handleMouseMove g e s =
     (case svgRef s of
        None \<Rightarrow> Inr s
      | Some rect \<Rightarrow>
          if \<not> dragging s then Inr s
          else
            (case dragStartRef s of
               None \<Rightarrow> Inl TypeError
             | Some (x, y) \<Rightarrow>
                 (let s1 = (if \<not> draggedRef s \<and> 5 < Math_hypot g (clientX e - x) (clientY e - y)
                            then s\<lparr>draggedRef := True\<rparr> else s)
                  in case getSegmentIndex g (clientX e) (clientY e) rect of
                       None \<Rightarrow> Inr s1
                     | Some seg \<Rightarrow> Inr (setSegmentColors (paint seg (activeColor s)) s1))))"

text \<open>
  \<^verbatim>\<open>
  const handleMouseUp = (e) => {
      if (!svgRef.current) return;
      if (!draggedRef.current) {
          const rect = svgRef.current.getBoundingClientRect();
          const seg = getSegmentIndex(e.clientX, e.clientY, rect);
          if (seg !== null) {
              setSegmentColors(prev => {
                  const next = {...prev};
                  if (next[seg] === activeColor) delete next[seg];
                  else next[seg] = activeColor;
                  return next;
              });
          }
      }
      setDragging(false);
  };
  \<close>
\<close>

definition toggle :: "nat \<Rightarrow> string \<Rightarrow> segment_map \<Rightarrow> segment_map" where
  "toggle seg color prev = (if prev seg = Some color then prev(seg := None) else prev(seg \<mapsto> color))"

definition handleMouseUp :: "geometry \<Rightarrow> mouse_event \<Rightarrow> clock \<Rightarrow> clock" where
  "handleMouseUp g e s =
     (case svgRef s of
        None \<Rightarrow> s
      | Some rect \<Rightarrow>
          (let s1 = (if \<not> draggedRef s
                     then (case getSegmentIndex g (clientX e) (clientY e) rect of
                             None \<Rightarrow> s
                           | Some seg \<Rightarrow>
                               setSegmentColors (\<lambda>prev. Replace (toggle seg (activeColor s) prev)) s)
                     else s)
           in s1\<lparr>dragging := False\<rparr>))"

text \<open>
  \<^verbatim>\<open>
  const clearClock = () => {
      setSegmentColors({});
      localStorage.removeItem(LOCAL_STORAGE_KEY);
  };
  \<close>
\<close>

definition clearClock :: "clock \<Rightarrow> clock" where
  "clearClock s = (setSegmentColors (\<lambda>prev. Replace Map.empty) s)\<lparr>localStorage := None\<rparr>"

definition setActiveColor :: "string \<Rightarrow> clock \<Rightarrow> clock" where
  "setActiveColor color s = s\<lparr>activeColor := color\<rparr>"

subsection \<open>Events, rendering and the persistence effect\<close>

text \<open>
  \<^verbatim>\<open>
  useEffect(() => {
      localStorage.setItem(LOCAL_STORAGE_KEY, JSON.stringify(segmentColors));
  }, [segmentColors]);
  \<close>
  After a handler has run, React renders the component again and runs the effect when
  \<open>segmentColors\<close> is not the object of the previous render. Events are handled one
  after the other, each one with its render and effect before the next.
\<close>

definition persist_effect :: "clock \<Rightarrow> clock \<Rightarrow> clock" where
  "persist_effect before after =
     (if segmentColors_id after = segmentColors_id before then after
      else after\<lparr>localStorage := Some (JSON_stringify (segmentColors after)),
                 setItem_calls := Suc (setItem_calls after)\<rparr>)"

datatype ui_event =
    MouseDown mouse_event
  | MouseMove mouse_event
  | MouseUp mouse_event
  | ClearClick
  | ColorClick string

fun handler :: "geometry \<Rightarrow> ui_event \<Rightarrow> clock \<Rightarrow> js_error + clock" where
  "handler g (MouseDown e) s = Inr (handleMouseDown g e s)"
| "handler g (MouseMove e) s = handleMouseMove g e s"
| "handler g (MouseUp e) s = Inr (handleMouseUp g e s)"
| "handler g ClearClick s = Inr (clearClock s)"
| "handler g (ColorClick color) s = Inr (setActiveColor color s)"

definition dispatch :: "geometry \<Rightarrow> ui_event \<Rightarrow> clock \<Rightarrow> js_error + clock" where
  "dispatch g ev s =
     (case handler g ev s of
        Inl err \<Rightarrow> Inl err
      | Inr s' \<Rightarrow> Inr (persist_effect s s'))"

fun run :: "geometry \<Rightarrow> ui_event list \<Rightarrow> clock \<Rightarrow> js_error + clock" where
  "run g [] s = Inr s"
| "run g (ev # evs) s =
     (case dispatch g ev s of
        Inl err \<Rightarrow> Inl err
      | Inr s' \<Rightarrow> run g evs s')"

text \<open>
  The state after the first render: \<^verbatim>\<open>useState('blue')\<close>, \<^verbatim>\<open>useState(false)\<close>,
  \<^verbatim>\<open>useRef(null)\<close> for the drag start, \<^verbatim>\<open>useRef(false)\<close> for the drag flag, the ref of
  the mounted element with bounding rectangle \<open>r\<close>, and the effect run once on mount.
  \<open>m\<close> is the segment map the initializer returned.
\<close>

definition initial_clock :: "segment_map \<Rightarrow> rect \<Rightarrow> clock" where
  "initial_clock m r =
     \<lparr>segmentColors = m, segmentColors_id = 0, activeColor = ''blue'', dragging = False,
      svgRef = Some r, dragStartRef = None, draggedRef = False,
      localStorage = Some (JSON_stringify m), setItem_calls = 1\<rparr>"

subsection \<open>Gestures\<close>

text \<open>
  What the handlers compute from an event: the segment under the pointer, and whether the
  pointer is more than 5 units from the anchor that \<^verbatim>\<open>handleMouseDown\<close> recorded.
\<close>

definition resolve :: "geometry \<Rightarrow> rect \<Rightarrow> mouse_event \<Rightarrow> nat option" where
  "resolve g r e = getSegmentIndex g (clientX e) (clientY e) r"

definition exceeds :: "geometry \<Rightarrow> real \<times> real \<Rightarrow> mouse_event \<Rightarrow> bool" where
  "exceeds g a e = (5 < Math_hypot g (clientX e - fst a) (clientY e - snd a))"

text \<open>The map after the active colour \<open>c\<close> has been assigned at each resolved segment in turn.\<close>

fun painted :: "string \<Rightarrow> nat option list \<Rightarrow> segment_map \<Rightarrow> segment_map" where
  "painted c [] m = m"
| "painted c (None # ks) m = painted c ks m"
| "painted c (Some k # ks) m = painted c ks (m(k \<mapsto> c))"

subsection \<open>A concrete clock\<close>

text \<open>
  The examples below run the handlers on the component as it is rendered: a 700 by 700
  element at the origin of the viewport, so that the centre of the face is (350, 350) and
  the radius 340, mounted with nothing stored. \<open>example_getSegmentIndex\<close> lists the
  value of \<^verbatim>\<open>getSegmentIndex\<close> at the pointer positions the examples use (every other
  position is left out of the table and is not used). For instance at (353, 348) the
  offset from the centre is (3, -2), \<^verbatim>\<open>atan2(-2, 3)\<close> is -33.69 degrees,
  (-33.69 + 90 + 360) % 360 = 56.31 and \<^verbatim>\<open>floor(56.31 / 15)\<close> = 3. The angles of the
  table, clockwise from the top, are 0.57 degrees for (351, 250), 56.31 for (353, 348) and
  (380, 330), 63.43 for (352, 349) and (390, 330), and 75.96 for (354, 349) and (430, 330).
  \<open>ideal_hypot\<close> is the Euclidean length that \<^verbatim>\<open>Math.hypot\<close> computes.
\<close>

definition ideal_hypot :: "real \<Rightarrow> real \<Rightarrow> real" where
  "ideal_hypot a b = sqrt (a\<^sup>2 + b\<^sup>2)"

definition example_rect :: rect where
  "example_rect = \<lparr>left = 0, top = 0\<rparr>"

definition example_getSegmentIndex :: "real \<Rightarrow> real \<Rightarrow> rect \<Rightarrow> nat option" where
  "example_getSegmentIndex x y r =
     (if (x, y) = (351, 250) then Some 0
      else if (x, y) = (353, 348) \<or> (x, y) = (380, 330) then Some 3
      else if (x, y) = (352, 349) \<or> (x, y) = (390, 330) then Some 4
      else if (x, y) = (354, 349) \<or> (x, y) = (430, 330) then Some 5
      else None)"

definition example_geometry :: geometry where
  "example_geometry = \<lparr>Math_hypot = ideal_hypot, getSegmentIndex = example_getSegmentIndex\<rparr>"

definition pointer :: "real \<Rightarrow> real \<Rightarrow> mouse_event" where
  "pointer x y = \<lparr>clientX = x, clientY = y\<rparr>"

definition example_clock :: clock where
  "example_clock = initial_clock Map.empty example_rect"

subsection \<open>The segment resolver and the rendering geometry\<close>

text \<open>
  \<^verbatim>\<open>
  const size = 700;
  const center = size / 2;
  const radius = center - 10;

  const getSegmentIndex = (clientX, clientY, rect) => {
      const x = clientX - rect.left;
      const y = clientY - rect.top;
      const dx = x - center;
      const dy = y - center;
      if (Math.hypot(dx, dy) > radius) return null;
      let angle = Math.atan2(dy, dx) * (180 / Math.PI);
      angle = (angle + 90 + 360) % 360;
      return Math.floor(angle / 15);
  };
  \<close>
  JavaScript numbers are real numbers here. \<^verbatim>\<open>Math.hypot\<close> and \<^verbatim>\<open>Math.atan2\<close> are
  parameters of the resolver, \<^verbatim>\<open>Math.PI\<close> is \<open>pi\<close>, and \<^verbatim>\<open>Math.floor\<close> is the floor.
  The operator \<^verbatim>\<open>%\<close> is the remainder of the truncated quotient: it has the sign of the
  dividend, unlike the mathematical modulus (the divisor is 360 wherever the component
  uses it). The resolver returns the index as an integer, \<open>None\<close> for \<^verbatim>\<open>null\<close>.
\<close>

definition size_px :: real where
  "size_px = 700"

definition center :: real where
  "center = size_px / 2"

definition radius :: real where
  "radius = center - 10"

definition js_trunc :: "real \<Rightarrow> int" where
  "js_trunc q = (if 0 \<le> q then \<lfloor>q\<rfloor> else \<lceil>q\<rceil>)"

definition js_rem :: "real \<Rightarrow> real \<Rightarrow> real" where
  "js_rem n d = n - d * of_int (js_trunc (n / d))"

definition getSegmentIndex_at ::
  "(real \<Rightarrow> real \<Rightarrow> real) \<Rightarrow> (real \<Rightarrow> real \<Rightarrow> real) \<Rightarrow> real \<Rightarrow> real \<Rightarrow> rect \<Rightarrow> int option" where
  "getSegmentIndex_at hypot atan2 cX cY rect =
     (let x = cX - left rect;
          y = cY - top rect;
          dx = x - center;
          dy = y - center
      in if hypot dx dy > radius then None
         else
           (let angle = atan2 dy dx * (180 / pi);
                angle' = js_rem (angle + 90 + 360) 360
            in Some \<lfloor>angle' / 15\<rfloor>))"

text \<open>
  \<^verbatim>\<open>
  const polarToCartesian = (angleDeg, r = radius) => {
      const rad = (angleDeg * Math.PI) / 180;
      return {x: center + r * Math.cos(rad), y: center + r * Math.sin(rad)};
  };
  \<close>
  The point is the pair of its \<^verbatim>\<open>x\<close> and \<^verbatim>\<open>y\<close>, in the coordinates of the element
  (the pointer's \<^verbatim>\<open>clientX\<close> and \<^verbatim>\<open>clientY\<close> are these plus \<^verbatim>\<open>rect.left\<close> and
  \<^verbatim>\<open>rect.top\<close>); the radius is always given. \<^verbatim>\<open>renderSegment(i)\<close> draws segment \<open>i\<close>
  between \<^verbatim>\<open>startAngle = i * 15 - 90\<close> and \<^verbatim>\<open>endAngle = (i + 1) * 15 - 90\<close>.
\<close>

definition polarToCartesian :: "real \<Rightarrow> real \<Rightarrow> real \<times> real" where
  "polarToCartesian angleDeg r =
     (let rad = (angleDeg * pi) / 180
      in (center + r * cos rad, center + r * sin rad))"

definition startAngle :: "nat \<Rightarrow> real" where
  "startAngle i = real i * 15 - 90"

definition endAngle :: "nat \<Rightarrow> real" where
  "endAngle i = (real i + 1) * 15 - 90"

text \<open>
  The angle that \<^verbatim>\<open>Math.atan2(y, x)\<close> computes: the argument of the point \<open>(x, y)\<close>, in
  the interval from \<open>-pi\<close> (excluded) to \<open>pi\<close> (included), and 0 at the origin.
\<close>

definition ideal_atan2 :: "real \<Rightarrow> real \<Rightarrow> real" where
  "ideal_atan2 y x = Arg (Complex x y)"

text \<open>
  In the words of the specification: the angle in degrees from the horizontal axis, plus
  90, plus 360, modulo 360, where the modulus is the mathematical one, with a result from 0
  (included) to 360 (excluded).
\<close>

definition normalized_angle :: "real \<Rightarrow> real" where
  "normalized_angle deg = (deg + 90 + 360) - 360 * of_int \<lfloor>(deg + 90 + 360) / 360\<rfloor>"

section \<open>Properties\<close>

subsection \<open>Basic facts\<close>

lemma JSON_parse_empty_object: "JSON_parse ''{}'' = Inr (JObject [])"
  by (simp add: JSON_parse_def is_ws_def)

lemma JSON_stringify_empty: "JSON_stringify Map.empty = ''{}''"
  by (simp add: JSON_stringify_def)

text \<open>
  What the component stores for a map with two segments, and the load of that text.
\<close>

lemma JSON_stringify_example:
  "JSON_stringify [0 \<mapsto> ''blue'', 3 \<mapsto> ''green'']
     = [CHR ''{'', CHR 0x22, CHR ''0'', CHR 0x22, CHR '':'', CHR 0x22] @ ''blue''
       @ [CHR 0x22, CHR '','', CHR 0x22, CHR ''3'', CHR 0x22, CHR '':'', CHR 0x22] @ ''green''
       @ [CHR 0x22, CHR ''}'']"
  by (simp add: JSON_stringify_def quote_string_def quote_char_def)

lemma load_of_stored_example:
  "initial_segmentColors (Some (JSON_stringify [0 \<mapsto> ''blue'', 3 \<mapsto> ''green'']))
     = Inr (JObject [(''0'', JString ''blue''), (''3'', JString ''green'')])"
  unfolding JSON_stringify_example
  by (simp add: initial_segmentColors_def JSON_parse_def is_ws_def is_digit_def is_escape_def)

lemma persist_effect_fields [simp]:
  "segmentColors (persist_effect a b) = segmentColors b"
  "segmentColors_id (persist_effect a b) = segmentColors_id b"
  "activeColor (persist_effect a b) = activeColor b"
  "dragging (persist_effect a b) = dragging b"
  "svgRef (persist_effect a b) = svgRef b"
  "dragStartRef (persist_effect a b) = dragStartRef b"
  "draggedRef (persist_effect a b) = draggedRef b"
  by (simp_all add: persist_effect_def)

lemma setSegmentColors_fields [simp]:
  "activeColor (setSegmentColors f s) = activeColor s"
  "dragging (setSegmentColors f s) = dragging s"
  "svgRef (setSegmentColors f s) = svgRef s"
  "dragStartRef (setSegmentColors f s) = dragStartRef s"
  "draggedRef (setSegmentColors f s) = draggedRef s"
  "localStorage (setSegmentColors f s) = localStorage s"
  "setItem_calls (setSegmentColors f s) = setItem_calls s"
  by (simp_all add: setSegmentColors_def split: update.splits)

lemma setSegmentColors_paint [simp]:
  "segmentColors (setSegmentColors (paint seg c) s) = (segmentColors s)(seg \<mapsto> c)"
  by (auto simp: setSegmentColors_def paint_def)

lemma painted_append: "painted c (ks @ ks') m = painted c ks' (painted c ks m)"
proof (induction ks arbitrary: m)
  case Nil
  then show ?case by simp
next
  case (Cons k ks)
  then show ?case by (cases k) (simp_all del: fun_upd_apply)
qed

lemma run_append:
  "run g (xs @ ys) s = (case run g xs s of Inl err \<Rightarrow> Inl err | Inr s' \<Rightarrow> run g ys s')"
  by (induction xs arbitrary: s) (simp_all split: sum.splits)

lemma run_single: "run g [ev] s = dispatch g ev s"
  by (simp split: sum.splits)

lemma ideal_hypot_gt_5: "5 < ideal_hypot a b \<longleftrightarrow> 25 < a\<^sup>2 + b\<^sup>2"
proof -
  have "sqrt 25 = 5"
    using real_sqrt_abs [of 5] by simp
  then have "5 < sqrt (a\<^sup>2 + b\<^sup>2) \<longleftrightarrow> sqrt 25 < sqrt (a\<^sup>2 + b\<^sup>2)"
    by simp
  then show ?thesis
    unfolding ideal_hypot_def by (simp only: real_sqrt_less_iff)
qed

lemmas example_simps =
  example_clock_def initial_clock_def example_geometry_def example_getSegmentIndex_def
  example_rect_def pointer_def dispatch_def handleMouseDown_def handleMouseUp_def
  handleMouseMove_def setSegmentColors_def persist_effect_def paint_def toggle_def
  setActiveColor_def ideal_hypot_gt_5

lemma example_svgRef: "svgRef example_clock = Some example_rect"
  by (simp add: example_clock_def initial_clock_def)

subsection \<open>Arithmetic of the resolver\<close>

lemma center_radius_values:
  "center = 350" "radius = 340"
  by (simp_all add: radius_def center_def size_px_def)

lemma js_rem_nonneg:
  assumes "0 \<le> n"
  shows "js_rem n 360 = n - 360 * of_int \<lfloor>n / 360\<rfloor>"
  using assms by (simp add: js_rem_def js_trunc_def)

lemma floor_mod_bounds:
  fixes n :: real
  shows "0 \<le> n - 360 * of_int \<lfloor>n / 360\<rfloor> \<and> n - 360 * of_int \<lfloor>n / 360\<rfloor> < 360"
proof -
  have "of_int \<lfloor>n / 360\<rfloor> \<le> n / 360" "n / 360 < of_int \<lfloor>n / 360\<rfloor> + 1"
    by linarith+
  then show ?thesis by (simp add: field_simps)
qed

lemma normalized_angle_bounds: "0 \<le> normalized_angle d \<and> normalized_angle d < 360"
  unfolding normalized_angle_def by (rule floor_mod_bounds)

lemma degrees_lower:
  assumes "- pi \<le> t"
  shows "- 180 \<le> t * (180 / pi)"
proof -
  have "- pi * (180 / pi) \<le> t * (180 / pi)"
    using assms by (intro mult_right_mono) simp_all
  then show ?thesis by simp
qed

lemma getSegmentIndex_at_inside:
  assumes "\<not> radius < hyp (cX - left r - center) (cY - top r - center)"
    and "- pi \<le> atn (cY - top r - center) (cX - left r - center)"
  shows "getSegmentIndex_at hyp atn cX cY r =
      Some \<lfloor>normalized_angle (atn (cY - top r - center) (cX - left r - center) * (180 / pi)) / 15\<rfloor>"
proof -
  let ?deg = "atn (cY - top r - center) (cX - left r - center) * (180 / pi)"
  have "0 \<le> ?deg + 90 + 360"
    using degrees_lower [OF assms(2)] by linarith
  then have "js_rem (?deg + 90 + 360) 360 = normalized_angle ?deg"
    by (simp only: js_rem_nonneg normalized_angle_def)
  then show ?thesis
    using assms(1) by (simp add: getSegmentIndex_at_def Let_def)
qed

lemma ideal_hypot_gt:
  assumes "0 \<le> c"
  shows "c < ideal_hypot a b \<longleftrightarrow> c\<^sup>2 < a\<^sup>2 + b\<^sup>2"
proof -
  have "sqrt (c\<^sup>2) = c"
    using assms by simp
  then have "c < sqrt (a\<^sup>2 + b\<^sup>2) \<longleftrightarrow> sqrt (c\<^sup>2) < sqrt (a\<^sup>2 + b\<^sup>2)"
    by simp
  then show ?thesis
    unfolding ideal_hypot_def by (simp only: real_sqrt_less_iff)
qed

lemma ideal_hypot_polar:
  assumes "0 \<le> r"
  shows "ideal_hypot (r * cos t) (r * sin t) = r"
proof -
  have "(r * cos t)\<^sup>2 + (r * sin t)\<^sup>2 = r\<^sup>2 * ((cos t)\<^sup>2 + (sin t)\<^sup>2)"
    by (simp only: power_mult_distrib distrib_left)
  also have "\<dots> = r\<^sup>2" by simp
  finally show ?thesis
    using assms by (simp add: ideal_hypot_def)
qed

lemma ideal_atan2_bounds: "- pi < ideal_atan2 y x \<and> ideal_atan2 y x \<le> pi"
  unfolding ideal_atan2_def by (rule Arg_bounded)

lemma ideal_atan2_polar:
  assumes "0 < r" "- pi < t" "t \<le> pi"
  shows "ideal_atan2 (r * sin t) (r * cos t) = t"
proof -
  have z: "Complex (r * cos t) (r * sin t) = of_real r * cis t"
    by (simp add: complex_eq_iff)
  have "sgn (of_real r * cis t) = cis t"
    using assms(1) by (simp add: sgn_mult sgn_of_real)
  then show ?thesis
    unfolding ideal_atan2_def z using assms(2,3) by (intro cis_Arg_unique)
qed

lemma ideal_atan2_right: "0 < x \<Longrightarrow> ideal_atan2 0 x = 0"
  using ideal_atan2_polar [of x 0] by simp

lemma midpoint_angle:
  assumes "i < 24"
  shows "normalized_angle
           (ideal_atan2 (radius / 2 * sin ((real i * 15 + 7.5 - 90) * pi / 180))
                        (radius / 2 * cos ((real i * 15 + 7.5 - 90) * pi / 180)) * (180 / pi))
         = real i * 15 + 7.5"
proof -
  let ?t = "(real i * 15 + 7.5 - 90) * pi / 180"
  have r: "0 < radius / 2" by (simp add: radius_def center_def size_px_def)
  have i: "real i \<le> 23" using assms by simp
  have lo: "- pi < ?t"
  proof -
    have "- 180 < real i * 15 + 7.5 - 90" by simp
    then have "- 180 * (pi / 180) < (real i * 15 + 7.5 - 90) * (pi / 180)"
      by (intro mult_strict_right_mono) simp_all
    then show ?thesis by simp
  qed
  show ?thesis
  proof (cases "i \<le> 17")
    case True
    then have "real i \<le> 17" by simp
    then have "real i * 15 + 7.5 - 90 \<le> 180" by simp
    then have "(real i * 15 + 7.5 - 90) * (pi / 180) \<le> 180 * (pi / 180)"
      by (intro mult_right_mono) simp_all
    then have hi: "?t \<le> pi" by simp
    have "ideal_atan2 (radius / 2 * sin ?t) (radius / 2 * cos ?t) = ?t"
      using ideal_atan2_polar [OF r lo hi] .
    then have deg: "ideal_atan2 (radius / 2 * sin ?t) (radius / 2 * cos ?t) * (180 / pi)
        = real i * 15 + 7.5 - 90"
      by simp
    have "\<lfloor>(real i * 15 + 7.5 - 90 + 90 + 360) / 360\<rfloor> = 1"
      using \<open>real i \<le> 17\<close> by (intro floor_unique) simp_all
    then show ?thesis
      unfolding deg normalized_angle_def by simp
  next
    case False
    then have ge: "18 \<le> real i" by simp
    let ?u = "?t - 2 * pi"
    have ulo: "- pi < ?u"
    proof -
      have "180 < real i * 15 + 7.5 - 90" using ge by simp
      then have "180 * (pi / 180) < (real i * 15 + 7.5 - 90) * (pi / 180)"
        by (intro mult_strict_right_mono) simp_all
      then show ?thesis by simp
    qed
    have uhi: "?u \<le> pi"
    proof -
      have "real i * 15 + 7.5 - 90 \<le> 540" using i by simp
      then have "(real i * 15 + 7.5 - 90) * (pi / 180) \<le> 540 * (pi / 180)"
        by (intro mult_right_mono) simp_all
      then show ?thesis by simp
    qed
    have cs: "cos ?u = cos ?t" "sin ?u = sin ?t"
      by (simp_all add: cos_diff sin_diff)
    have "ideal_atan2 (radius / 2 * sin ?u) (radius / 2 * cos ?u) = ?u"
      using ideal_atan2_polar [OF r ulo uhi] .
    then have "ideal_atan2 (radius / 2 * sin ?t) (radius / 2 * cos ?t) = ?u"
      unfolding cs .
    then have deg: "ideal_atan2 (radius / 2 * sin ?t) (radius / 2 * cos ?t) * (180 / pi)
        = real i * 15 + 7.5 - 90 - 360"
      by (simp add: field_simps)
    have "\<lfloor>(real i * 15 + 7.5 - 90 - 360 + 90 + 360) / 360\<rfloor> = 0"
      using ge i by (intro floor_unique) simp_all
    then show ?thesis
      unfolding deg normalized_angle_def by simp
  qed
qed

subsection \<open>One event at a time\<close>

lemma dispatch_MouseDown:
  assumes "svgRef s = Some r"
  shows "\<exists>s'. dispatch g (MouseDown e) s = Inr s'
    \<and> svgRef s' = Some r \<and> dragging s' \<and> \<not> draggedRef s'
    \<and> dragStartRef s' = Some (clientX e, clientY e)
    \<and> activeColor s' = activeColor s
    \<and> segmentColors s' = painted (activeColor s) [resolve g r e] (segmentColors s)"
  using assms
  by (cases "getSegmentIndex g (clientX e) (clientY e) r")
     (simp_all add: dispatch_def handleMouseDown_def resolve_def setSegmentColors_def)

lemma dispatch_MouseMove:
  assumes "svgRef s = Some r" "dragging s" "dragStartRef s = Some a"
  shows "\<exists>s'. dispatch g (MouseMove e) s = Inr s'
    \<and> svgRef s' = Some r \<and> dragging s' \<and> dragStartRef s' = Some a
    \<and> activeColor s' = activeColor s
    \<and> (draggedRef s' \<longleftrightarrow> draggedRef s \<or> exceeds g a e)
    \<and> segmentColors s' = painted (activeColor s) [resolve g r e] (segmentColors s)"
  using assms
  by (cases a; cases "getSegmentIndex g (clientX e) (clientY e) r")
     (auto simp: dispatch_def handleMouseMove_def resolve_def exceeds_def)

lemma dispatch_MouseUp:
  assumes "svgRef s = Some r"
  shows "\<exists>s'. dispatch g (MouseUp e) s = Inr s'
    \<and> svgRef s' = Some r \<and> \<not> dragging s' \<and> dragStartRef s' = dragStartRef s
    \<and> activeColor s' = activeColor s \<and> draggedRef s' = draggedRef s
    \<and> segmentColors s' =
        (if draggedRef s then segmentColors s
         else case resolve g r e of
                None \<Rightarrow> segmentColors s
              | Some seg \<Rightarrow> toggle seg (activeColor s) (segmentColors s))"
  using assms
  by (cases "getSegmentIndex g (clientX e) (clientY e) r")
     (simp_all add: dispatch_def handleMouseUp_def resolve_def Let_def setSegmentColors_def)

subsection \<open>A gesture: pointer-down, then pointer-moves\<close>

lemma run_moves:
  assumes "svgRef s = Some r" "dragging s" "dragStartRef s = Some a"
  shows "\<exists>s'. run g (map MouseMove ms) s = Inr s'
    \<and> svgRef s' = Some r \<and> dragging s' \<and> dragStartRef s' = Some a
    \<and> activeColor s' = activeColor s
    \<and> (draggedRef s' \<longleftrightarrow> draggedRef s \<or> (\<exists>m \<in> set ms. exceeds g a m))
    \<and> segmentColors s' = painted (activeColor s) (map (resolve g r) ms) (segmentColors s)"
  using assms
proof (induction ms arbitrary: s)
  case Nil
  then show ?case by simp
next
  case (Cons m ms)
  from dispatch_MouseMove [OF Cons.prems, of g m] obtain s1 where
    s1: "dispatch g (MouseMove m) s = Inr s1" "svgRef s1 = Some r" "dragging s1"
      "dragStartRef s1 = Some a" "activeColor s1 = activeColor s"
      "draggedRef s1 \<longleftrightarrow> draggedRef s \<or> exceeds g a m"
      "segmentColors s1 = painted (activeColor s) [resolve g r m] (segmentColors s)"
    by blast
  from Cons.IH [OF s1(2,3,4)] obtain s' where
    s': "run g (map MouseMove ms) s1 = Inr s'" "svgRef s' = Some r" "dragging s'"
      "dragStartRef s' = Some a" "activeColor s' = activeColor s1"
      "draggedRef s' \<longleftrightarrow> draggedRef s1 \<or> (\<exists>m \<in> set ms. exceeds g a m)"
      "segmentColors s' = painted (activeColor s1) (map (resolve g r) ms) (segmentColors s1)"
    by blast
  have run: "run g (map MouseMove (m # ms)) s = Inr s'"
    using s1(1) s'(1) by simp
  have dr: "draggedRef s' \<longleftrightarrow> draggedRef s \<or> (\<exists>x \<in> set (m # ms). exceeds g a x)"
    using s1(6) s'(6) by auto
  have "segmentColors s' =
      painted (activeColor s) (map (resolve g r) ms)
        (painted (activeColor s) [resolve g r m] (segmentColors s))"
    using s1(5,7) s'(7) by (simp only:)
  also have "\<dots> = painted (activeColor s) (map (resolve g r) (m # ms)) (segmentColors s)"
    using painted_append [of "activeColor s" "[resolve g r m]" "map (resolve g r) ms" "segmentColors s"]
    by (simp only: list.map append.simps)
  finally have sg: "segmentColors s' =
      painted (activeColor s) (map (resolve g r) (m # ms)) (segmentColors s)" .
  have ac: "activeColor s' = activeColor s"
    using s1(5) s'(5) by (simp only:)
  from run s'(2,3,4) ac dr sg show ?case by blast
qed

lemma run_gesture:
  assumes "svgRef s = Some r"
  shows "\<exists>s'. run g (MouseDown e # map MouseMove ms) s = Inr s'
    \<and> svgRef s' = Some r \<and> dragging s' \<and> dragStartRef s' = Some (clientX e, clientY e)
    \<and> activeColor s' = activeColor s
    \<and> (draggedRef s' \<longleftrightarrow> (\<exists>m \<in> set ms. exceeds g (clientX e, clientY e) m))
    \<and> segmentColors s' = painted (activeColor s) (map (resolve g r) (e # ms)) (segmentColors s)"
proof -
  from dispatch_MouseDown [OF assms, of g e] obtain s1 where
    s1: "dispatch g (MouseDown e) s = Inr s1" "svgRef s1 = Some r" "dragging s1"
      "\<not> draggedRef s1" "dragStartRef s1 = Some (clientX e, clientY e)"
      "activeColor s1 = activeColor s"
      "segmentColors s1 = painted (activeColor s) [resolve g r e] (segmentColors s)"
    by blast
  from run_moves [OF s1(2,3,5), of g ms] obtain s' where
    s': "run g (map MouseMove ms) s1 = Inr s'" "svgRef s' = Some r" "dragging s'"
      "dragStartRef s' = Some (clientX e, clientY e)" "activeColor s' = activeColor s1"
      "draggedRef s' \<longleftrightarrow> draggedRef s1 \<or> (\<exists>m \<in> set ms. exceeds g (clientX e, clientY e) m)"
      "segmentColors s' = painted (activeColor s1) (map (resolve g r) ms) (segmentColors s1)"
    by blast
  have run: "run g (MouseDown e # map MouseMove ms) s = Inr s'"
    using s1(1) s'(1) by simp
  have dr: "draggedRef s' \<longleftrightarrow> (\<exists>x \<in> set ms. exceeds g (clientX e, clientY e) x)"
    using s1(4) s'(6) by (simp only: simp_thms)
  have "segmentColors s' =
      painted (activeColor s) (map (resolve g r) ms)
        (painted (activeColor s) [resolve g r e] (segmentColors s))"
    using s1(6,7) s'(7) by (simp only:)
  also have "\<dots> = painted (activeColor s) (map (resolve g r) (e # ms)) (segmentColors s)"
    using painted_append [of "activeColor s" "[resolve g r e]" "map (resolve g r) ms" "segmentColors s"]
    by (simp only: list.map append.simps)
  finally have sg: "segmentColors s' =
      painted (activeColor s) (map (resolve g r) (e # ms)) (segmentColors s)" .
  have ac: "activeColor s' = activeColor s"
    using s1(6) s'(5) by (simp only:)
  from run s'(2,3,4) ac dr sg show ?thesis by blast
qed

subsection \<open>Clicking a segment\<close>

text \<open>
  Whatever the segment held before, a click (pointer-down and pointer-up at the same
  position, no move in between) leaves it unassigned: \<^verbatim>\<open>handleMouseDown\<close> assigns the
  active colour, so the toggle of \<^verbatim>\<open>handleMouseUp\<close> always finds the active colour and
  deletes the key.
\<close>

lemma click_leaves_segment_unassigned:
  assumes "svgRef s0 = Some r"
    and "getSegmentIndex g (clientX e) (clientY e) r = Some seg"
  shows "\<exists>s'. run g [MouseDown e, MouseUp e] s0 = Inr s' \<and> segmentColors s' seg = None"
  using assms
  by (simp add: dispatch_def handleMouseDown_def handleMouseUp_def setSegmentColors_def
      toggle_def)

text \<open>
  Claim C1. A click on an unassigned segment with active colour C leaves the segment
  assigned to C, and a second click un-assigns it again. On the mounted example clock with
  nothing assigned and active colour blue, the pointer-down at (351, 250) assigns blue to
  segment 0, and the pointer-up at the same position removes it: after the first click
  segment 0 is unassigned, and it is unassigned after the second click too.
\<close>

theorem click_on_unassigned_segment:
  "map_sum id (\<lambda>s. segmentColors s 0)
     (run example_geometry [MouseDown (pointer 351 250)] example_clock) = Inr (Some ''blue'')
   \<and> map_sum id (\<lambda>s. segmentColors s 0)
     (run example_geometry [MouseDown (pointer 351 250), MouseUp (pointer 351 250)] example_clock)
     = Inr None
   \<and> map_sum id (\<lambda>s. segmentColors s 0)
     (run example_geometry [MouseDown (pointer 351 250), MouseUp (pointer 351 250),
                            MouseDown (pointer 351 250), MouseUp (pointer 351 250)] example_clock)
     = Inr None"
  by (simp add: example_simps)

subsection \<open>The startup load\<close>

text \<open>
  Claim C2, as stated, fails: for the stored text \<^verbatim>\<open>not json\<close> the load does not return
  a map; the \<^verbatim>\<open>SyntaxError\<close> of \<^verbatim>\<open>JSON.parse\<close> leaves the initializer.
\<close>

theorem initial_segmentColors_malformed_counterexample: "initial_segmentColors (Some ''not json'') = Inl SyntaxError"
  by (simp add: initial_segmentColors_def JSON_parse_def is_ws_def is_digit_def)

text \<open>
  Claim C2, amended. The startup load returns an empty map when the slot is absent or
  holds the empty string; for every non-empty stored text it is \<^verbatim>\<open>JSON.parse\<close> of that
  text: the parsed value when the text is JSON, and the \<^verbatim>\<open>SyntaxError\<close> thrown to the
  caller when it is not.
\<close>

theorem initial_segmentColors_cases:
  "initial_segmentColors None = Inr (JObject [])
   \<and> initial_segmentColors (Some []) = Inr (JObject [])
   \<and> initial_segmentColors (Some (c # cs)) = JSON_parse (c # cs)"
  by (simp add: initial_segmentColors_def)

subsection \<open>Drag classification\<close>

text \<open>
  Claim C5. In a gesture started by a pointer-down at \<open>e0\<close> and continued by the
  pointer-moves \<open>ms\<close>, the drag flag is set if and only if some move is more than 5 units
  (by \<^verbatim>\<open>Math.hypot\<close>) from the pointer-down position; further moves never reset it; and
  when no move exceeded the threshold, the pointer-up is a click on the segment under the
  pointer, whatever moves occurred in between: a segment that holds the active colour
  loses its key, any other segment gets the active colour, and no other segment changes.
\<close>

theorem drag_classification:
  assumes "svgRef s0 = Some r"
  shows "\<exists>s. run g (MouseDown e0 # map MouseMove ms) s0 = Inr s
    \<and> (draggedRef s \<longleftrightarrow>
         (\<exists>m \<in> set ms. 5 < Math_hypot g (clientX m - clientX e0) (clientY m - clientY e0)))
    \<and> (\<forall>ms'. \<exists>s'. run g (map MouseMove ms') s = Inr s' \<and> (draggedRef s \<longrightarrow> draggedRef s'))
    \<and> (\<not> draggedRef s \<longrightarrow>
         (\<exists>s'. dispatch g (MouseUp e) s = Inr s'
            \<and> segmentColors s' =
                (case getSegmentIndex g (clientX e) (clientY e) r of
                   None \<Rightarrow> segmentColors s
                 | Some seg \<Rightarrow>
                     if segmentColors s seg = Some (activeColor s0)
                     then (segmentColors s)(seg := None)
                     else (segmentColors s)(seg \<mapsto> activeColor s0))))"
proof -
  from run_gesture [OF assms, of g e0 ms] obtain s where
    s: "run g (MouseDown e0 # map MouseMove ms) s0 = Inr s" "svgRef s = Some r" "dragging s"
      "dragStartRef s = Some (clientX e0, clientY e0)" "activeColor s = activeColor s0"
      "draggedRef s \<longleftrightarrow> (\<exists>m \<in> set ms. exceeds g (clientX e0, clientY e0) m)"
    by blast
  have a: "draggedRef s \<longleftrightarrow>
      (\<exists>m \<in> set ms. 5 < Math_hypot g (clientX m - clientX e0) (clientY m - clientY e0))"
    using s(6) by (simp add: exceeds_def)
  have b: "\<exists>s'. run g (map MouseMove ms') s = Inr s' \<and> (draggedRef s \<longrightarrow> draggedRef s')" for ms'
    using run_moves [OF s(2,3,4), of g ms'] by blast
  have c: "\<exists>s'. dispatch g (MouseUp e) s = Inr s'
      \<and> segmentColors s' =
          (case getSegmentIndex g (clientX e) (clientY e) r of
             None \<Rightarrow> segmentColors s
           | Some seg \<Rightarrow>
               if segmentColors s seg = Some (activeColor s0)
               then (segmentColors s)(seg := None)
               else (segmentColors s)(seg \<mapsto> activeColor s0))"
    if "\<not> draggedRef s"
    using dispatch_MouseUp [OF s(2), of g e] that s(5)
    by (auto simp: resolve_def toggle_def split: option.splits)
  from s(1) a b c show ?thesis by blast
qed

text \<open>
  The theorem at work on the example clock: a move from (353, 348) to (380, 330) sets the
  flag. A move to (352, 349) does not; it paints segment 4 blue, and the pointer-up there
  removes segment 4, while a pointer-up at (354, 349) instead assigns blue to the
  unassigned segment 5.
\<close>

theorem drag_classification_witness:
  "svgRef example_clock = Some example_rect
   \<and> (\<exists>s. run example_geometry (MouseDown (pointer 353 348) # map MouseMove [pointer 380 330])
            example_clock = Inr s
        \<and> draggedRef s)
   \<and> (\<exists>s s' s''. run example_geometry (MouseDown (pointer 353 348) # map MouseMove [pointer 352 349])
            example_clock = Inr s
        \<and> \<not> draggedRef s
        \<and> segmentColors s 3 = Some ''blue'' \<and> segmentColors s 4 = Some ''blue''
        \<and> segmentColors s 5 = None
        \<and> dispatch example_geometry (MouseUp (pointer 352 349)) s = Inr s'
        \<and> segmentColors s' 3 = Some ''blue'' \<and> segmentColors s' 4 = None
        \<and> segmentColors s' 5 = None
        \<and> dispatch example_geometry (MouseUp (pointer 354 349)) s = Inr s''
        \<and> segmentColors s'' 3 = Some ''blue'' \<and> segmentColors s'' 4 = Some ''blue''
        \<and> segmentColors s'' 5 = Some ''blue'')"
proof -
  from drag_classification [OF example_svgRef, of example_geometry "pointer 353 348"
      "[pointer 380 330]" "pointer 380 330"]
  obtain s where s: "run example_geometry (MouseDown (pointer 353 348) # map MouseMove [pointer 380 330])
        example_clock = Inr s"
    "draggedRef s \<longleftrightarrow> (\<exists>m \<in> set [pointer 380 330].
        5 < Math_hypot example_geometry (clientX m - clientX (pointer 353 348))
              (clientY m - clientY (pointer 353 348)))"
    by blast
  have far: "draggedRef s"
    unfolding s(2) by (simp add: example_geometry_def pointer_def ideal_hypot_gt_5)
  obtain t where t: "run example_geometry (MouseDown (pointer 353 348) # map MouseMove [pointer 352 349])
        example_clock = Inr t"
    and tv: "segmentColors t 3 = Some ''blue''" "segmentColors t 4 = Some ''blue''"
      "segmentColors t 5 = None"
    by (simp add: example_simps)
  have act: "activeColor example_clock = ''blue''"
    by (simp add: example_clock_def initial_clock_def)
  have seg4: "getSegmentIndex example_geometry (clientX (pointer 352 349)) (clientY (pointer 352 349))
      example_rect = Some 4"
    and seg5: "getSegmentIndex example_geometry (clientX (pointer 354 349)) (clientY (pointer 354 349))
      example_rect = Some 5"
    by (simp_all add: example_geometry_def example_getSegmentIndex_def pointer_def)
  from drag_classification [OF example_svgRef, of example_geometry "pointer 353 348"
      "[pointer 352 349]" "pointer 352 349"] t
  have near: "draggedRef t \<longleftrightarrow> (\<exists>m \<in> set [pointer 352 349].
        5 < Math_hypot example_geometry (clientX m - clientX (pointer 353 348))
              (clientY m - clientY (pointer 353 348)))"
    and up4: "\<not> draggedRef t \<longrightarrow>
       (\<exists>s'. dispatch example_geometry (MouseUp (pointer 352 349)) t = Inr s'
          \<and> segmentColors s' =
              (case getSegmentIndex example_geometry (clientX (pointer 352 349))
                      (clientY (pointer 352 349)) example_rect of
                 None \<Rightarrow> segmentColors t
               | Some seg \<Rightarrow>
                   if segmentColors t seg = Some (activeColor example_clock)
                   then (segmentColors t)(seg := None)
                   else (segmentColors t)(seg \<mapsto> activeColor example_clock)))"
    by simp_all
  from drag_classification [OF example_svgRef, of example_geometry "pointer 353 348"
      "[pointer 352 349]" "pointer 354 349"] t
  have up5: "\<not> draggedRef t \<longrightarrow>
       (\<exists>s'. dispatch example_geometry (MouseUp (pointer 354 349)) t = Inr s'
          \<and> segmentColors s' =
              (case getSegmentIndex example_geometry (clientX (pointer 354 349))
                      (clientY (pointer 354 349)) example_rect of
                 None \<Rightarrow> segmentColors t
               | Some seg \<Rightarrow>
                   if segmentColors t seg = Some (activeColor example_clock)
                   then (segmentColors t)(seg := None)
                   else (segmentColors t)(seg \<mapsto> activeColor example_clock)))"
    by simp
  have nd: "\<not> draggedRef t"
    unfolding near by (simp add: example_geometry_def pointer_def ideal_hypot_gt_5)
  from up4 nd obtain t' where t': "dispatch example_geometry (MouseUp (pointer 352 349)) t = Inr t'"
    "segmentColors t' = (segmentColors t)(4 := None)"
    unfolding seg4 act using tv by auto
  from up5 nd obtain t'' where t'': "dispatch example_geometry (MouseUp (pointer 354 349)) t = Inr t''"
    "segmentColors t'' = (segmentColors t)(5 \<mapsto> ''blue'')"
    unfolding seg5 act using tv by auto
  have v': "segmentColors t' 3 = Some ''blue''" "segmentColors t' 4 = None" "segmentColors t' 5 = None"
    unfolding t'(2) using tv by simp_all
  have v'': "segmentColors t'' 3 = Some ''blue''" "segmentColors t'' 4 = Some ''blue''"
    "segmentColors t'' 5 = Some ''blue''"
    unfolding t''(2) using tv by simp_all
  from example_svgRef s(1) far t nd tv t'(1) v' t''(1) v'' show ?thesis by blast
qed

subsection \<open>Drag painting\<close>

text \<open>
  Claim C6, as stated, fails for a gesture that stays within the drag threshold: with
  pointer-down at (353, 348) on segment 3 and moves resolved to segments 3, 3, 4, 5 that
  all stay within 5 units of the pointer-down, the gesture is a click, and the pointer-up on
  segment 5 toggles the green it has just been painted with off again.
\<close>

theorem small_gesture_counterexample:
  "map_sum id (\<lambda>s. (segmentColors s 3, segmentColors s 4, segmentColors s 5))
     (run example_geometry
        [ColorClick ''green'', MouseDown (pointer 353 348),
         MouseMove (pointer 353 348), MouseMove (pointer 353 348),
         MouseMove (pointer 352 349), MouseMove (pointer 354 349),
         MouseUp (pointer 354 349)] example_clock)
   = Inr (Some ''green'', Some ''green'', None)"
  by (simp add: example_simps)

text \<open>
  Claim C6, amended. For a gesture starting with a pointer-down resolved to segment 3,
  followed by pointer-moves resolved to segments 3, 3, 4, 5 of which at least one is more
  than 5 units from the pointer-down position, and then a pointer-up anywhere, the resulting
  map has segments 3, 4 and 5 mapped to the active colour, and every other segment holds
  the value it held before the gesture.
\<close>

theorem drag_paints_3_4_5:
  assumes "svgRef s0 = Some r"
    and "getSegmentIndex g (clientX e0) (clientY e0) r = Some 3"
    and "map (\<lambda>m. getSegmentIndex g (clientX m) (clientY m) r) [m1, m2, m3, m4]
          = [Some 3, Some 3, Some 4, Some 5]"
    and "\<exists>m \<in> set [m1, m2, m3, m4].
          5 < Math_hypot g (clientX m - clientX e0) (clientY m - clientY e0)"
  shows "\<exists>s'. run g [MouseDown e0, MouseMove m1, MouseMove m2, MouseMove m3, MouseMove m4,
                      MouseUp e1] s0 = Inr s'
    \<and> segmentColors s' 3 = Some (activeColor s0)
    \<and> segmentColors s' 4 = Some (activeColor s0)
    \<and> segmentColors s' 5 = Some (activeColor s0)
    \<and> (\<forall>k. k \<notin> {3, 4, 5} \<longrightarrow> segmentColors s' k = segmentColors s0 k)"
proof -
  let ?ms = "[m1, m2, m3, m4]"
  from run_gesture [OF assms(1), of g e0 ?ms] obtain s where
    s: "run g (MouseDown e0 # map MouseMove ?ms) s0 = Inr s" "svgRef s = Some r"
      "draggedRef s \<longleftrightarrow> (\<exists>m \<in> set ?ms. exceeds g (clientX e0, clientY e0) m)"
      "segmentColors s = painted (activeColor s0) (map (resolve g r) (e0 # ?ms)) (segmentColors s0)"
    by blast
  have d: "draggedRef s"
    using s(3) assms(4) by (simp add: exceeds_def)
  have rs: "map (resolve g r) (e0 # ?ms) = [Some 3, Some 3, Some 3, Some 4, Some 5]"
    using assms(2,3) by (simp add: resolve_def)
  have sm: "segmentColors s =
      (segmentColors s0)(3 \<mapsto> activeColor s0, 4 \<mapsto> activeColor s0, 5 \<mapsto> activeColor s0)"
    unfolding s(4) rs by (simp del: fun_upd_apply)
  from dispatch_MouseUp [OF s(2), of g e1] d obtain s' where
    s': "dispatch g (MouseUp e1) s = Inr s'" "segmentColors s' = segmentColors s"
    by auto
  have run: "run g [MouseDown e0, MouseMove m1, MouseMove m2, MouseMove m3, MouseMove m4,
                    MouseUp e1] s0 = Inr s'"
    using run_append [of g "MouseDown e0 # map MouseMove ?ms" "[MouseUp e1]" s0] s(1) s'(1)
    by (simp add: run_single)
  show ?thesis
    using run s'(2) sm by simp
qed

text \<open>
  The theorem at work on the example clock with active colour green: pointer-down at
  (353, 348), moves to (353, 348), (380, 330), (390, 330) and (430, 330).
\<close>

theorem drag_paints_3_4_5_witness:
  "svgRef (setActiveColor ''green'' example_clock) = Some example_rect
   \<and> getSegmentIndex example_geometry (clientX (pointer 353 348)) (clientY (pointer 353 348))
        example_rect = Some 3
   \<and> map (\<lambda>m. getSegmentIndex example_geometry (clientX m) (clientY m) example_rect)
        [pointer 353 348, pointer 380 330, pointer 390 330, pointer 430 330]
        = [Some 3, Some 3, Some 4, Some 5]
   \<and> 5 < Math_hypot example_geometry (clientX (pointer 380 330) - clientX (pointer 353 348))
            (clientY (pointer 380 330) - clientY (pointer 353 348))
   \<and> (\<exists>s'. run example_geometry
              [MouseDown (pointer 353 348), MouseMove (pointer 353 348),
               MouseMove (pointer 380 330), MouseMove (pointer 390 330),
               MouseMove (pointer 430 330), MouseUp (pointer 430 330)]
              (setActiveColor ''green'' example_clock) = Inr s'
        \<and> segmentColors s' 3 = Some ''green''
        \<and> segmentColors s' 4 = Some ''green''
        \<and> segmentColors s' 5 = Some ''green''
        \<and> segmentColors s' 6 = None)"
proof -
  let ?s0 = "setActiveColor ''green'' example_clock"
  have h1: "svgRef ?s0 = Some example_rect"
    by (simp add: setActiveColor_def example_clock_def initial_clock_def)
  have h2: "getSegmentIndex example_geometry (clientX (pointer 353 348)) (clientY (pointer 353 348))
        example_rect = Some 3"
    by (simp add: example_geometry_def example_getSegmentIndex_def pointer_def)
  have h3: "map (\<lambda>m. getSegmentIndex example_geometry (clientX m) (clientY m) example_rect)
        [pointer 353 348, pointer 380 330, pointer 390 330, pointer 430 330]
        = [Some 3, Some 3, Some 4, Some 5]"
    by (simp add: example_geometry_def example_getSegmentIndex_def pointer_def)
  have far: "5 < Math_hypot example_geometry (clientX (pointer 380 330) - clientX (pointer 353 348))
            (clientY (pointer 380 330) - clientY (pointer 353 348))"
    by (simp add: example_geometry_def pointer_def ideal_hypot_gt_5)
  then have h4: "\<exists>m \<in> set [pointer 353 348, pointer 380 330, pointer 390 330, pointer 430 330].
      5 < Math_hypot example_geometry (clientX m - clientX (pointer 353 348))
            (clientY m - clientY (pointer 353 348))"
    by simp
  have ac: "activeColor ?s0 = ''green''" "segmentColors ?s0 6 = None"
    by (simp_all add: setActiveColor_def example_clock_def initial_clock_def)
  from drag_paints_3_4_5 [OF h1 h2 h3 h4, of "pointer 430 330"] ac
  have "\<exists>s'. run example_geometry
              [MouseDown (pointer 353 348), MouseMove (pointer 353 348),
               MouseMove (pointer 380 330), MouseMove (pointer 390 330),
               MouseMove (pointer 430 330), MouseUp (pointer 430 330)] ?s0 = Inr s'
        \<and> segmentColors s' 3 = Some ''green''
        \<and> segmentColors s' 4 = Some ''green''
        \<and> segmentColors s' 5 = Some ''green''
        \<and> segmentColors s' 6 = None"
    by (auto simp del: run.simps)
  with h1 h2 h3 far show ?thesis by blast
qed

subsection \<open>Clearing\<close>

text \<open>
  Claim C8. After the clear operation the segment map is empty; \<^verbatim>\<open>removeItem\<close> leaves
  the slot absent, and the effect that follows the render stores the serialization
  \<^verbatim>\<open>{}\<close> of the empty map in it; a load from that slot returns an empty map.
\<close>

theorem clearClock_then_load:
  "\<exists>s'. dispatch g ClearClick s = Inr s'
     \<and> segmentColors s' = Map.empty
     \<and> localStorage (clearClock s) = None
     \<and> localStorage s' = Some (JSON_stringify Map.empty)
     \<and> localStorage s' = Some ''{}''
     \<and> initial_segmentColors (localStorage s') = Inr (JObject [])"
  by (simp add: dispatch_def clearClock_def setSegmentColors_def persist_effect_def
      JSON_stringify_empty initial_segmentColors_def JSON_parse_empty_object)

subsection \<open>Pointer-moves over a segment that is already painted\<close>

text \<open>
  Claim C9. During a gesture, a pointer-move whose resolved segment already holds the
  active colour leaves \<open>segmentColors\<close> the same object with the same content, and
  \<^verbatim>\<open>localStorage.setItem\<close> is not called.
\<close>

theorem move_over_painted_segment:
  assumes "svgRef s0 = Some r"
    and "run g (MouseDown e0 # map MouseMove ms) s0 = Inr s"
    and "getSegmentIndex g (clientX e) (clientY e) r = Some seg"
    and "segmentColors s seg = Some (activeColor s)"
  shows "\<exists>s'. dispatch g (MouseMove e) s = Inr s'
    \<and> segmentColors s' = segmentColors s
    \<and> segmentColors_id s' = segmentColors_id s
    \<and> localStorage s' = localStorage s
    \<and> setItem_calls s' = setItem_calls s"
proof -
  from run_gesture [OF assms(1), of g e0 ms] assms(2) have
    s: "svgRef s = Some r" "dragging s" "dragStartRef s = Some (clientX e0, clientY e0)"
    by auto
  show ?thesis
    using s assms(3,4)
    by (simp add: dispatch_def handleMouseMove_def setSegmentColors_def paint_def
        persist_effect_def)
qed

text \<open>
  The theorem at work on the example clock: after the pointer-down at (351, 250) has
  painted segment 0, a move at the same position changes nothing and stores nothing.
\<close>

theorem move_over_painted_segment_witness:
  "svgRef example_clock = Some example_rect
   \<and> getSegmentIndex example_geometry (clientX (pointer 351 250)) (clientY (pointer 351 250))
        example_rect = Some 0
   \<and> (\<exists>s s'. run example_geometry (MouseDown (pointer 351 250) # map MouseMove []) example_clock = Inr s
        \<and> segmentColors s 0 = Some (activeColor s)
        \<and> dispatch example_geometry (MouseMove (pointer 351 250)) s = Inr s'
        \<and> segmentColors s' = segmentColors s
        \<and> segmentColors_id s' = segmentColors_id s
        \<and> localStorage s' = localStorage s
        \<and> setItem_calls s' = setItem_calls s)"
proof -
  have h3: "getSegmentIndex example_geometry (clientX (pointer 351 250)) (clientY (pointer 351 250))
        example_rect = Some 0"
    by (simp add: example_geometry_def example_getSegmentIndex_def pointer_def)
  obtain s where s: "run example_geometry (MouseDown (pointer 351 250) # map MouseMove []) example_clock = Inr s"
    and h4: "segmentColors s 0 = Some (activeColor s)"
    by (simp add: example_simps)
  from move_over_painted_segment [OF example_svgRef s h3 h4] s h4 example_svgRef h3
  show ?thesis by blast
qed

subsection \<open>A pointer-up with no gesture in progress\<close>

text \<open>
  Claim C10. A pointer-up that no pointer-down precedes is not ignored. After a completed
  gesture (pointer-down, moves, pointer-up) \<open>dragging\<close> is false, and the drag flag is
  still what the gesture's moves made it. A further pointer-up then acts as a click on the
  segment under the pointer when the flag is false (a segment that holds the active colour
  loses its key, any other segment gets the active colour), and leaves the map as it is
  when the flag is true; only a pointer-down resets the flag. On the freshly mounted clock
  the flag is false too, and a pointer-up acts as a click on the segment under the pointer.
\<close>

theorem stray_mouse_up:
  assumes "svgRef s0 = Some r"
  shows "(\<exists>s1. run g (MouseDown e0 # map MouseMove ms @ [MouseUp e1]) s0 = Inr s1
      \<and> \<not> dragging s1
      \<and> (draggedRef s1 \<longleftrightarrow>
           (\<exists>m \<in> set ms. 5 < Math_hypot g (clientX m - clientX e0) (clientY m - clientY e0)))
      \<and> (\<exists>s2. dispatch g (MouseUp e) s1 = Inr s2
            \<and> segmentColors s2 =
                (if draggedRef s1 then segmentColors s1
                 else case getSegmentIndex g (clientX e) (clientY e) r of
                        None \<Rightarrow> segmentColors s1
                      | Some seg \<Rightarrow>
                          if segmentColors s1 seg = Some (activeColor s0)
                          then (segmentColors s1)(seg := None)
                          else (segmentColors s1)(seg \<mapsto> activeColor s0)))
      \<and> (\<exists>s3. dispatch g (MouseDown e) s1 = Inr s3 \<and> \<not> draggedRef s3))
    \<and> \<not> dragging (initial_clock m r) \<and> \<not> draggedRef (initial_clock m r)
    \<and> (\<exists>s2. dispatch g (MouseUp e) (initial_clock m r) = Inr s2
          \<and> segmentColors s2 =
              (case getSegmentIndex g (clientX e) (clientY e) r of
                 None \<Rightarrow> m
               | Some seg \<Rightarrow>
                   if m seg = Some ''blue'' then m(seg := None) else m(seg \<mapsto> ''blue'')))"
proof -
  from run_gesture [OF assms, of g e0 ms] obtain s where
    s: "run g (MouseDown e0 # map MouseMove ms) s0 = Inr s" "svgRef s = Some r"
      "activeColor s = activeColor s0"
      "draggedRef s \<longleftrightarrow> (\<exists>m \<in> set ms. exceeds g (clientX e0, clientY e0) m)"
    by blast
  from dispatch_MouseUp [OF s(2), of g e1] obtain s1 where
    s1: "dispatch g (MouseUp e1) s = Inr s1" "svgRef s1 = Some r" "\<not> dragging s1"
      "draggedRef s1 = draggedRef s" "activeColor s1 = activeColor s"
    by blast
  have run: "run g (MouseDown e0 # map MouseMove ms @ [MouseUp e1]) s0 = Inr s1"
    using run_append [of g "MouseDown e0 # map MouseMove ms" "[MouseUp e1]" s0] s(1) s1(1)
    by (simp add: run_single)
  have fl: "draggedRef s1 \<longleftrightarrow>
      (\<exists>m \<in> set ms. 5 < Math_hypot g (clientX m - clientX e0) (clientY m - clientY e0))"
    using s(4) s1(4) by (simp add: exceeds_def)
  have ac: "activeColor s1 = activeColor s0"
    using s(3) s1(5) by simp
  have up: "\<exists>s2. dispatch g (MouseUp e) s1 = Inr s2
      \<and> segmentColors s2 =
          (if draggedRef s1 then segmentColors s1
           else case getSegmentIndex g (clientX e) (clientY e) r of
                  None \<Rightarrow> segmentColors s1
                | Some seg \<Rightarrow>
                    if segmentColors s1 seg = Some (activeColor s0)
                    then (segmentColors s1)(seg := None)
                    else (segmentColors s1)(seg \<mapsto> activeColor s0))"
    using dispatch_MouseUp [OF s1(2), of g e] ac
    by (auto simp: resolve_def toggle_def split: option.splits)
  have dn: "\<exists>s3. dispatch g (MouseDown e) s1 = Inr s3 \<and> \<not> draggedRef s3"
    using dispatch_MouseDown [OF s1(2), of g e] by blast
  have i: "svgRef (initial_clock m r) = Some r" "\<not> dragging (initial_clock m r)"
    "\<not> draggedRef (initial_clock m r)" "activeColor (initial_clock m r) = ''blue''"
    "segmentColors (initial_clock m r) = m"
    by (simp_all add: initial_clock_def)
  have iu: "\<exists>s2. dispatch g (MouseUp e) (initial_clock m r) = Inr s2
      \<and> segmentColors s2 =
          (case getSegmentIndex g (clientX e) (clientY e) r of
             None \<Rightarrow> m
           | Some seg \<Rightarrow>
               if m seg = Some ''blue'' then m(seg := None) else m(seg \<mapsto> ''blue''))"
    using dispatch_MouseUp [OF i(1), of g e] i(3,4,5)
    by (auto simp: resolve_def toggle_def split: option.splits)
  from run s1(3) fl up dn i(2,3) iu show ?thesis by blast
qed

text \<open>
  The theorem at work on the example clock. On the freshly mounted clock a pointer-up at
  (351, 250) assigns blue to segment 0. After a gesture that stays within the threshold
  (down at (353, 348), a move to (352, 349), up at (353, 348)) segment 0 is unassigned and
  segment 4 is blue: a further pointer-up at (351, 250) assigns blue to segment 0, and one
  at (352, 349) removes segment 4. After a drag from (353, 348) to (380, 330) a further
  pointer-up at (351, 250) leaves the map as it is, with segment 0 unassigned.
\<close>

theorem stray_mouse_up_witness:
  "svgRef example_clock = Some example_rect
   \<and> (\<exists>s2. dispatch example_geometry (MouseUp (pointer 351 250)) example_clock = Inr s2
        \<and> segmentColors s2 0 = Some ''blue'')
   \<and> (\<exists>s1 s2 s3. run example_geometry
                 (MouseDown (pointer 353 348) # map MouseMove [pointer 352 349]
                    @ [MouseUp (pointer 353 348)])
                 example_clock = Inr s1
        \<and> \<not> draggedRef s1
        \<and> segmentColors s1 0 = None \<and> segmentColors s1 4 = Some ''blue''
        \<and> dispatch example_geometry (MouseUp (pointer 351 250)) s1 = Inr s2
        \<and> segmentColors s2 0 = Some ''blue'' \<and> segmentColors s2 4 = Some ''blue''
        \<and> dispatch example_geometry (MouseUp (pointer 352 349)) s1 = Inr s3
        \<and> segmentColors s3 0 = None \<and> segmentColors s3 4 = None)
   \<and> (\<exists>s1 s2. run example_geometry
                 (MouseDown (pointer 353 348) # map MouseMove [pointer 380 330]
                    @ [MouseUp (pointer 380 330)])
                 example_clock = Inr s1
        \<and> draggedRef s1
        \<and> segmentColors s1 0 = None
        \<and> dispatch example_geometry (MouseUp (pointer 351 250)) s1 = Inr s2
        \<and> segmentColors s2 = segmentColors s1
        \<and> segmentColors s2 0 = None)"
proof -
  have act: "activeColor example_clock = ''blue''"
    by (simp add: example_clock_def initial_clock_def)
  have seg0: "getSegmentIndex example_geometry (clientX (pointer 351 250))
      (clientY (pointer 351 250)) example_rect = Some 0"
    and seg4: "getSegmentIndex example_geometry (clientX (pointer 352 349))
      (clientY (pointer 352 349)) example_rect = Some 4"
    by (simp_all add: example_geometry_def example_getSegmentIndex_def pointer_def)
  \<comment> \<open>the freshly mounted clock\<close>
  from stray_mouse_up [OF example_svgRef, of example_geometry "pointer 353 348" "[]"
      "pointer 353 348" "pointer 351 250" Map.empty, THEN conjunct2]
  obtain i2 where i2: "dispatch example_geometry (MouseUp (pointer 351 250))
        (initial_clock Map.empty example_rect) = Inr i2"
    "segmentColors i2 =
       (case getSegmentIndex example_geometry (clientX (pointer 351 250))
               (clientY (pointer 351 250)) example_rect of
          None \<Rightarrow> Map.empty
        | Some seg \<Rightarrow>
            if Map.empty seg = Some ''blue'' then Map.empty(seg := None)
            else Map.empty(seg \<mapsto> ''blue''))"
    by blast
  have i2v: "segmentColors i2 0 = Some ''blue''"
    unfolding i2(2) seg0 by simp
  have i2d: "dispatch example_geometry (MouseUp (pointer 351 250)) example_clock = Inr i2"
    using i2(1) by (simp add: example_clock_def)
  \<comment> \<open>after a click\<close>
  obtain c1 where c1: "run example_geometry
        (MouseDown (pointer 353 348) # map MouseMove [pointer 352 349] @ [MouseUp (pointer 353 348)])
        example_clock = Inr c1"
    and c1v: "segmentColors c1 0 = None" "segmentColors c1 4 = Some ''blue''"
    by (simp add: example_simps)
  from stray_mouse_up [OF example_svgRef, of example_geometry "pointer 353 348" "[pointer 352 349]"
      "pointer 353 348" "pointer 351 250" Map.empty, THEN conjunct1]
  obtain x where x: "run example_geometry
        (MouseDown (pointer 353 348) # map MouseMove [pointer 352 349] @ [MouseUp (pointer 353 348)])
        example_clock = Inr x"
    "draggedRef x \<longleftrightarrow> (\<exists>m \<in> set [pointer 352 349]. 5 < Math_hypot example_geometry
        (clientX m - clientX (pointer 353 348)) (clientY m - clientY (pointer 353 348)))"
    "\<exists>s2. dispatch example_geometry (MouseUp (pointer 351 250)) x = Inr s2
      \<and> segmentColors s2 =
          (if draggedRef x then segmentColors x
           else case getSegmentIndex example_geometry (clientX (pointer 351 250))
                       (clientY (pointer 351 250)) example_rect of
                  None \<Rightarrow> segmentColors x
                | Some seg \<Rightarrow>
                    if segmentColors x seg = Some (activeColor example_clock)
                    then (segmentColors x)(seg := None)
                    else (segmentColors x)(seg \<mapsto> activeColor example_clock))"
    by blast
  have xc: "x = c1"
    using x(1) unfolding c1 by simp
  from stray_mouse_up [OF example_svgRef, of example_geometry "pointer 353 348" "[pointer 352 349]"
      "pointer 353 348" "pointer 352 349" Map.empty, THEN conjunct1]
  obtain y where y: "run example_geometry
        (MouseDown (pointer 353 348) # map MouseMove [pointer 352 349] @ [MouseUp (pointer 353 348)])
        example_clock = Inr y"
    "\<exists>s2. dispatch example_geometry (MouseUp (pointer 352 349)) y = Inr s2
      \<and> segmentColors s2 =
          (if draggedRef y then segmentColors y
           else case getSegmentIndex example_geometry (clientX (pointer 352 349))
                       (clientY (pointer 352 349)) example_rect of
                  None \<Rightarrow> segmentColors y
                | Some seg \<Rightarrow>
                    if segmentColors y seg = Some (activeColor example_clock)
                    then (segmentColors y)(seg := None)
                    else (segmentColors y)(seg \<mapsto> activeColor example_clock))"
    by blast
  have yc: "y = c1"
    using y(1) unfolding c1 by simp
  have c1n: "\<not> draggedRef c1"
    using x(2) unfolding xc by (simp add: example_geometry_def pointer_def ideal_hypot_gt_5)
  from x(3) obtain c2 where c2: "dispatch example_geometry (MouseUp (pointer 351 250)) c1 = Inr c2"
    "segmentColors c2 = (segmentColors c1)(0 \<mapsto> ''blue'')"
    unfolding xc seg0 act using c1n c1v by auto
  from y(2) obtain c3 where c3: "dispatch example_geometry (MouseUp (pointer 352 349)) c1 = Inr c3"
    "segmentColors c3 = (segmentColors c1)(4 := None)"
    unfolding yc seg4 act using c1n c1v by auto
  have c2v: "segmentColors c2 0 = Some ''blue''" "segmentColors c2 4 = Some ''blue''"
    unfolding c2(2) using c1v by simp_all
  have c3v: "segmentColors c3 0 = None" "segmentColors c3 4 = None"
    unfolding c3(2) using c1v by simp_all
  \<comment> \<open>after a drag\<close>
  obtain d1 where d1: "run example_geometry
        (MouseDown (pointer 353 348) # map MouseMove [pointer 380 330] @ [MouseUp (pointer 380 330)])
        example_clock = Inr d1"
    and d1v: "segmentColors d1 0 = None"
    by (simp add: example_simps)
  from stray_mouse_up [OF example_svgRef, of example_geometry "pointer 353 348" "[pointer 380 330]"
      "pointer 380 330" "pointer 351 250" Map.empty, THEN conjunct1]
  obtain z where z: "run example_geometry
        (MouseDown (pointer 353 348) # map MouseMove [pointer 380 330] @ [MouseUp (pointer 380 330)])
        example_clock = Inr z"
    "draggedRef z \<longleftrightarrow> (\<exists>m \<in> set [pointer 380 330]. 5 < Math_hypot example_geometry
        (clientX m - clientX (pointer 353 348)) (clientY m - clientY (pointer 353 348)))"
    "\<exists>s2. dispatch example_geometry (MouseUp (pointer 351 250)) z = Inr s2
      \<and> segmentColors s2 =
          (if draggedRef z then segmentColors z
           else case getSegmentIndex example_geometry (clientX (pointer 351 250))
                       (clientY (pointer 351 250)) example_rect of
                  None \<Rightarrow> segmentColors z
                | Some seg \<Rightarrow>
                    if segmentColors z seg = Some (activeColor example_clock)
                    then (segmentColors z)(seg := None)
                    else (segmentColors z)(seg \<mapsto> activeColor example_clock))"
    by blast
  have zd: "z = d1"
    using z(1) unfolding d1 by simp
  have d1y: "draggedRef d1"
    using z(2) unfolding zd by (simp add: example_geometry_def pointer_def ideal_hypot_gt_5)
  from z(3) obtain d2 where d2: "dispatch example_geometry (MouseUp (pointer 351 250)) d1 = Inr d2"
    "segmentColors d2 = segmentColors d1"
    unfolding zd using d1y by auto
  have d2v: "segmentColors d2 0 = None"
    unfolding d2(2) by (rule d1v)
  from example_svgRef i2d i2v c1 c1n c1v c2(1) c2v c3(1) c3v d1 d1y d1v d2 d2v
  show ?thesis by blast
qed

subsection \<open>The segment resolver\<close>

text \<open>
  Claim C3. For every pointer position: when the distance from the centre (the value of
  \<^verbatim>\<open>Math.hypot\<close>) is at most the radius, \<^verbatim>\<open>getSegmentIndex\<close> returns an integer index
  from 0 to 23; when it exceeds the radius, it returns \<^verbatim>\<open>null\<close>. This holds for every
  \<^verbatim>\<open>Math.hypot\<close> and every \<^verbatim>\<open>Math.atan2\<close> that is at least \<open>-pi\<close> at the position.
\<close>

theorem getSegmentIndex_range:
  assumes "- pi \<le> atan2 (cY - top r - center) (cX - left r - center)"
  shows "(hypot (cX - left r - center) (cY - top r - center) \<le> radius \<longrightarrow>
           (\<exists>i. getSegmentIndex_at hypot atan2 cX cY r = Some i \<and> 0 \<le> i \<and> i \<le> 23))
       \<and> (radius < hypot (cX - left r - center) (cY - top r - center) \<longrightarrow>
           getSegmentIndex_at hypot atan2 cX cY r = None)"
proof (intro conjI impI)
  assume inside: "hypot (cX - left r - center) (cY - top r - center) \<le> radius"
  let ?a = "normalized_angle (atan2 (cY - top r - center) (cX - left r - center) * (180 / pi))"
  from inside have "\<not> radius < hypot (cX - left r - center) (cY - top r - center)"
    by simp
  then have eq: "getSegmentIndex_at hypot atan2 cX cY r = Some \<lfloor>?a / 15\<rfloor>"
    using assms by (rule getSegmentIndex_at_inside [where hyp = hypot and atn = atan2])
  have b: "0 \<le> ?a" "?a < 360"
    using normalized_angle_bounds [of "atan2 (cY - top r - center) (cX - left r - center) * (180 / pi)"]
    by simp_all
  have lo: "0 \<le> \<lfloor>?a / 15\<rfloor>"
    using b(1) by simp
  have "?a / 15 < 24"
    using b(2) by simp
  then have "\<lfloor>?a / 15\<rfloor> < 24"
    by (simp add: floor_less_iff)
  then have hi: "\<lfloor>?a / 15\<rfloor> \<le> 23"
    by simp
  from eq lo hi show "\<exists>i. getSegmentIndex_at hypot atan2 cX cY r = Some i \<and> 0 \<le> i \<and> i \<le> 23"
    by blast
next
  assume "radius < hypot (cX - left r - center) (cY - top r - center)"
  then show "getSegmentIndex_at hypot atan2 cX cY r = None"
    by (simp add: getSegmentIndex_at_def Let_def)
qed

text \<open>
  The theorem at work with the Euclidean length and the argument of a point, the element at
  the origin: (520, 350) is 170 units right of the centre and resolves to a segment; (0, 0)
  is outside the face and resolves to \<^verbatim>\<open>null\<close>.
\<close>

theorem getSegmentIndex_range_witness:
  "- pi \<le> ideal_atan2 (350 - top example_rect - center) (520 - left example_rect - center)
   \<and> ideal_hypot (520 - left example_rect - center) (350 - top example_rect - center) \<le> radius
   \<and> (\<exists>i. getSegmentIndex_at ideal_hypot ideal_atan2 520 350 example_rect = Some i
         \<and> 0 \<le> i \<and> i \<le> 23)
   \<and> - pi \<le> ideal_atan2 (0 - top example_rect - center) (0 - left example_rect - center)
   \<and> radius < ideal_hypot (0 - left example_rect - center) (0 - top example_rect - center)
   \<and> getSegmentIndex_at ideal_hypot ideal_atan2 0 0 example_rect = None"
proof -
  have a1: "- pi \<le> ideal_atan2 (350 - top example_rect - center) (520 - left example_rect - center)"
    using ideal_atan2_bounds [of "350 - top example_rect - center" "520 - left example_rect - center"]
    by simp
  have h1: "ideal_hypot (520 - left example_rect - center) (350 - top example_rect - center) \<le> radius"
    using ideal_hypot_gt [of radius "520 - left example_rect - center" "350 - top example_rect - center"]
    by (simp add: example_rect_def center_radius_values not_less [symmetric])
  have a2: "- pi \<le> ideal_atan2 (0 - top example_rect - center) (0 - left example_rect - center)"
    using ideal_atan2_bounds [of "0 - top example_rect - center" "0 - left example_rect - center"]
    by simp
  have h2: "radius < ideal_hypot (0 - left example_rect - center) (0 - top example_rect - center)"
    using ideal_hypot_gt [of radius "0 - left example_rect - center" "0 - top example_rect - center"]
    by (simp add: example_rect_def center_radius_values)
  from getSegmentIndex_range [of ideal_atan2 350 example_rect 520 ideal_hypot, OF a1] h1
  have r1: "\<exists>i. getSegmentIndex_at ideal_hypot ideal_atan2 520 350 example_rect = Some i
         \<and> 0 \<le> i \<and> i \<le> 23"
    by blast
  from getSegmentIndex_range [of ideal_atan2 0 example_rect 0 ideal_hypot, OF a2] h2
  have r2: "getSegmentIndex_at ideal_hypot ideal_atan2 0 0 example_rect = None"
    by blast
  from a1 h1 r1 a2 h2 r2 show ?thesis by blast
qed

text \<open>
  Claim C4. For every pointer position inside the circle, the index that
  \<^verbatim>\<open>getSegmentIndex\<close> returns is the floor of \<open>a / 15\<close>, where \<open>a\<close> is the angle of
  \<^verbatim>\<open>Math.atan2\<close> in degrees plus 90 plus 360, modulo 360; \<open>a\<close> lies from 0 (included) to
  360 (excluded), and index \<open>i\<close> is returned exactly when \<open>a\<close> lies from \<open>15 i\<close>
  (included) to \<open>15 (i + 1)\<close> (excluded). The remainder \<^verbatim>\<open>%\<close> of the code and the
  modulus agree here because the dividend is not negative.
\<close>

theorem getSegmentIndex_floor:
  assumes "hypot (cX - left r - center) (cY - top r - center) \<le> radius"
    and "- pi \<le> atan2 (cY - top r - center) (cX - left r - center)"
  shows "getSegmentIndex_at hypot atan2 cX cY r =
           Some \<lfloor>normalized_angle (atan2 (cY - top r - center) (cX - left r - center) * (180 / pi)) / 15\<rfloor>
       \<and> 0 \<le> normalized_angle (atan2 (cY - top r - center) (cX - left r - center) * (180 / pi))
       \<and> normalized_angle (atan2 (cY - top r - center) (cX - left r - center) * (180 / pi)) < 360
       \<and> (\<forall>i. getSegmentIndex_at hypot atan2 cX cY r = Some i \<longleftrightarrow>
             of_int i * 15 \<le> normalized_angle (atan2 (cY - top r - center) (cX - left r - center) * (180 / pi))
             \<and> normalized_angle (atan2 (cY - top r - center) (cX - left r - center) * (180 / pi))
                 < (of_int i + 1) * 15)"
proof -
  let ?a = "normalized_angle (atan2 (cY - top r - center) (cX - left r - center) * (180 / pi))"
  from assms(1) have "\<not> radius < hypot (cX - left r - center) (cY - top r - center)"
    by simp
  then have eq: "getSegmentIndex_at hypot atan2 cX cY r = Some \<lfloor>?a / 15\<rfloor>"
    using assms(2) by (rule getSegmentIndex_at_inside [where hyp = hypot and atn = atan2])
  have b: "0 \<le> ?a" "?a < 360"
    using normalized_angle_bounds [of "atan2 (cY - top r - center) (cX - left r - center) * (180 / pi)"]
    by simp_all
  have iff: "\<lfloor>?a / 15\<rfloor> = i \<longleftrightarrow> of_int i * 15 \<le> ?a \<and> ?a < (of_int i + 1) * 15" for i
    by (simp add: floor_eq_iff field_simps)
  from eq b iff show ?thesis by simp
qed

text \<open>
  The theorem at work at (520, 350): the angle from the horizontal axis is 0, \<open>a\<close> is 90
  and the index is 6.
\<close>

theorem getSegmentIndex_floor_witness:
  "ideal_hypot (520 - left example_rect - center) (350 - top example_rect - center) \<le> radius
   \<and> - pi \<le> ideal_atan2 (350 - top example_rect - center) (520 - left example_rect - center)
   \<and> normalized_angle
        (ideal_atan2 (350 - top example_rect - center) (520 - left example_rect - center)
           * (180 / pi)) = 90
   \<and> getSegmentIndex_at ideal_hypot ideal_atan2 520 350 example_rect = Some 6"
proof -
  have a1: "- pi \<le> ideal_atan2 (350 - top example_rect - center) (520 - left example_rect - center)"
    using ideal_atan2_bounds [of "350 - top example_rect - center" "520 - left example_rect - center"]
    by simp
  have h1: "ideal_hypot (520 - left example_rect - center) (350 - top example_rect - center) \<le> radius"
    using ideal_hypot_gt [of radius "520 - left example_rect - center" "350 - top example_rect - center"]
    by (simp add: example_rect_def center_radius_values not_less [symmetric])
  have at: "ideal_atan2 (350 - top example_rect - center) (520 - left example_rect - center) = 0"
    by (simp add: example_rect_def center_radius_values ideal_atan2_right)
  have "\<lfloor>(450::real) / 360\<rfloor> = 1"
    by (intro floor_unique) simp_all
  then have na: "normalized_angle
        (ideal_atan2 (350 - top example_rect - center) (520 - left example_rect - center)
           * (180 / pi)) = 90"
    unfolding at normalized_angle_def by simp
  have "\<lfloor>(90::real) / 15\<rfloor> = 6"
    by (intro floor_unique) simp_all
  with getSegmentIndex_floor [of ideal_hypot 520 example_rect 350 ideal_atan2, OF h1 a1] na
  have "getSegmentIndex_at ideal_hypot ideal_atan2 520 350 example_rect = Some 6"
    by simp
  with h1 a1 na show ?thesis by blast
qed

text \<open>
  Claim C7. For every \<open>i\<close> below 24, the point that \<^verbatim>\<open>polarToCartesian\<close> gives for the
  midpoint angle of segment \<open>i\<close> (\<open>15 i + 7.5 - 90\<close> degrees, halfway between the
  \<^verbatim>\<open>startAngle\<close> and the \<^verbatim>\<open>endAngle\<close> of \<^verbatim>\<open>renderSegment\<close>) at half the radius
  resolves to \<open>i\<close>, wherever the element lies in the viewport. Numbers are real numbers,
  \<^verbatim>\<open>Math.hypot\<close> the Euclidean length and \<^verbatim>\<open>Math.atan2\<close> the argument of the point.
\<close>

theorem midpoint_resolves_to_segment:
  assumes "i < 24"
  shows "getSegmentIndex_at ideal_hypot ideal_atan2
           (left r + fst (polarToCartesian (real i * 15 + 7.5 - 90) (radius / 2)))
           (top r + snd (polarToCartesian (real i * 15 + 7.5 - 90) (radius / 2))) r
         = Some (int i)
       \<and> (startAngle i + endAngle i) / 2 = real i * 15 + 7.5 - 90"
proof -
  let ?t = "(real i * 15 + 7.5 - 90) * pi / 180"
  let ?cX = "left r + fst (polarToCartesian (real i * 15 + 7.5 - 90) (radius / 2))"
  let ?cY = "top r + snd (polarToCartesian (real i * 15 + 7.5 - 90) (radius / 2))"
  have dx: "?cX - left r - center = radius / 2 * cos ?t"
    and dy: "?cY - top r - center = radius / 2 * sin ?t"
    by (simp_all add: polarToCartesian_def Let_def)
  have r: "0 \<le> radius / 2" "radius / 2 \<le> radius"
    by (simp_all add: radius_def center_def size_px_def)
  have h: "\<not> radius < ideal_hypot (?cX - left r - center) (?cY - top r - center)"
    unfolding dx dy using ideal_hypot_polar [OF r(1), of ?t] r(2) by simp
  have a: "- pi \<le> ideal_atan2 (?cY - top r - center) (?cX - left r - center)"
    using ideal_atan2_bounds [of "?cY - top r - center" "?cX - left r - center"] by simp
  have "getSegmentIndex_at ideal_hypot ideal_atan2 ?cX ?cY r
      = Some \<lfloor>normalized_angle
          (ideal_atan2 (?cY - top r - center) (?cX - left r - center) * (180 / pi)) / 15\<rfloor>"
    using h a by (rule getSegmentIndex_at_inside [where hyp = ideal_hypot and atn = ideal_atan2])
  also have "\<dots> = Some \<lfloor>(real i * 15 + 7.5) / 15\<rfloor>"
    unfolding dx dy midpoint_angle [OF assms] ..
  also have "\<lfloor>(real i * 15 + 7.5) / 15\<rfloor> = int i"
    by (intro floor_unique) simp_all
  finally have seg: "getSegmentIndex_at ideal_hypot ideal_atan2 ?cX ?cY r = Some (int i)" .
  have mid: "(startAngle i + endAngle i) / 2 = real i * 15 + 7.5 - 90"
    by (simp add: startAngle_def endAngle_def field_simps)
  from seg mid show ?thesis by simp
qed

text \<open>
  The theorem at work for segment 3, whose midpoint angle \<^verbatim>\<open>Math.atan2\<close> returns as it
  is, and for segment 20, whose midpoint angle it returns less a full turn.
\<close>

theorem midpoint_resolves_to_segment_witness:
  "(3::nat) < 24
   \<and> getSegmentIndex_at ideal_hypot ideal_atan2
        (left example_rect + fst (polarToCartesian (real 3 * 15 + 7.5 - 90) (radius / 2)))
        (top example_rect + snd (polarToCartesian (real 3 * 15 + 7.5 - 90) (radius / 2)))
        example_rect = Some 3
   \<and> (20::nat) < 24
   \<and> getSegmentIndex_at ideal_hypot ideal_atan2
        (left example_rect + fst (polarToCartesian (real 20 * 15 + 7.5 - 90) (radius / 2)))
        (top example_rect + snd (polarToCartesian (real 20 * 15 + 7.5 - 90) (radius / 2)))
        example_rect = Some 20"
proof -
  have h3: "(3::nat) < 24" and h20: "(20::nat) < 24" by simp_all
  from midpoint_resolves_to_segment [OF h3, of example_rect]
    midpoint_resolves_to_segment [OF h20, of example_rect] h3 h20
  show ?thesis by simp
qed

end
